theory Spec2Isabelle
  imports Main
begin

section \<open>JavaScript values\<close>

text \<open>
  The extension (\<^verbatim>\<open>background.js\<close>) works on values that third parties send as JSON.
  A JSON value is modelled as it is after \<^verbatim>\<open>JSON.parse\<close>: a number is
  represented by the decimal text JavaScript prints for it (unique per value, \<open>''0''\<close>
  for zero), an object by its list of key and value pairs. A JavaScript value is a
  JSON value or \<^verbatim>\<open>undefined\<close> (\<open>None\<close>).
\<close>

datatype json = JNull | JBool bool | JNum string | JStr string
  | JArr "json list" | JObj "(string \<times> json) list"

type_synonym jsval = "json option"

text \<open>Truthiness, as \<^verbatim>\<open>if (v)\<close>, \<^verbatim>\<open>!v\<close> and \<^verbatim>\<open>v || d\<close> read it.\<close>

fun truthy_json :: "json \<Rightarrow> bool" where
  "truthy_json JNull = False"
| "truthy_json (JBool b) = b"
| "truthy_json (JNum n) = (n \<noteq> ''0'')"
| "truthy_json (JStr s) = (s \<noteq> [])"
| "truthy_json (JArr xs) = True"
| "truthy_json (JObj kvs) = True"

fun truthy :: "jsval \<Rightarrow> bool" where
  "truthy None = False"
| "truthy (Some j) = truthy_json j"

text \<open>
  Property access \<^verbatim>\<open>j.k\<close> on a value that is neither null nor undefined, for the
  data keys the source reads (none of them is an index, \<^verbatim>\<open>length\<close> or an inherited
  property): only an object has them.
\<close>

fun get_prop :: "json \<Rightarrow> string \<Rightarrow> jsval" where
  "get_prop (JObj kvs) k = map_of kvs k"
| "get_prop j k = None"

text \<open>Optional chaining \<^verbatim>\<open>v?.k\<close> and \<^verbatim>\<open>v?.[0]\<close>.\<close>

fun opt_prop :: "jsval \<Rightarrow> string \<Rightarrow> jsval" where
  "opt_prop None k = None"
| "opt_prop (Some JNull) k = None"
| "opt_prop (Some j) k = get_prop j k"

fun get_index0 :: "json \<Rightarrow> jsval" where
  "get_index0 (JArr xs) = (case xs of [] \<Rightarrow> None | x # rest \<Rightarrow> Some x)"
| "get_index0 (JObj kvs) = map_of kvs ''0''"
| "get_index0 (JStr s) = (case s of [] \<Rightarrow> None | c # rest \<Rightarrow> Some (JStr [c]))"
| "get_index0 j = None"

fun opt_index0 :: "jsval \<Rightarrow> jsval" where
  "opt_index0 None = None"
| "opt_index0 (Some JNull) = None"
| "opt_index0 (Some j) = get_index0 j"

text \<open>
  Strict equality \<^verbatim>\<open>a === b\<close> of two values that come from two different parsed
  documents: primitives are compared by value, objects and arrays by identity, so two of
  them are never equal.
\<close>

fun strict_eq :: "jsval \<Rightarrow> jsval \<Rightarrow> bool" where
  "strict_eq None None = True"
| "strict_eq (Some JNull) (Some JNull) = True"
| "strict_eq (Some (JBool a)) (Some (JBool b)) = (a = b)"
| "strict_eq (Some (JNum a)) (Some (JNum b)) = (a = b)"
| "strict_eq (Some (JStr a)) (Some (JStr b)) = (a = b)"
| "strict_eq a b = False"

text \<open>\<^verbatim>\<open>typeof v === 'object'\<close>: true of null, arrays and objects.\<close>

fun typeof_object :: "jsval \<Rightarrow> bool" where
  "typeof_object (Some JNull) = True"
| "typeof_object (Some (JArr xs)) = True"
| "typeof_object (Some (JObj kvs)) = True"
| "typeof_object v = False"

text \<open>\<^verbatim>\<open>v.length === 0\<close> on a truthy value.\<close>

fun length_is_zero :: "json \<Rightarrow> bool" where
  "length_is_zero (JArr xs) = (xs = [])"
| "length_is_zero (JStr s) = (s = [])"
| "length_is_zero (JObj kvs) = (map_of kvs ''length'' = Some (JNum ''0''))"
| "length_is_zero j = False"

text \<open>\<^verbatim>\<open>Array.prototype.join\<close> on strings, and the conversion to a string that
  template literals and \<^verbatim>\<open>+\<close> with a string apply.\<close>

fun array_join :: "string \<Rightarrow> string list \<Rightarrow> string" where
  "array_join sep [] = []"
| "array_join sep [x] = x"
| "array_join sep (x # y # ys) = x @ sep @ array_join sep (y # ys)"

fun js_string :: "json \<Rightarrow> string" where
  "js_string JNull = ''null''"
| "js_string (JBool b) = (if b then ''true'' else ''false'')"
| "js_string (JNum n) = n"
| "js_string (JStr s) = s"
| "js_string (JArr xs) =
     array_join '','' (map (\<lambda>x. if x = JNull then [] else js_string x) xs)"
| "js_string (JObj kvs) = ''[object Object]''"

fun js_string_val :: "jsval \<Rightarrow> string" where
  "js_string_val None = ''undefined''"
| "js_string_val (Some j) = js_string j"

definition digit_char :: "nat \<Rightarrow> char" where
  "digit_char d =
     (if d = 0 then CHR ''0'' else if d = 1 then CHR ''1'' else if d = 2 then CHR ''2''
      else if d = 3 then CHR ''3'' else if d = 4 then CHR ''4'' else if d = 5 then CHR ''5''
      else if d = 6 then CHR ''6'' else if d = 7 then CHR ''7'' else if d = 8 then CHR ''8''
      else CHR ''9'')"

fun show_nat :: "nat \<Rightarrow> string" where
  "show_nat n =
     (if n < 10 then [digit_char n] else show_nat (n div 10) @ [digit_char (n mod 10)])"

declare show_nat.simps [simp del]

definition nl :: string where
  "nl = [CHR 0x0A]"

text \<open>
  A string is the list of the UTF-8 bytes of the JavaScript string.
  \<^verbatim>\<open>String.prototype.trim\<close> removes the white space and line terminators of
  ECMAScript at both ends: U+0009 to U+000D, U+0020, U+00A0, U+1680, U+2000 to U+200A,
  U+2028, U+2029, U+202F, U+205F, U+3000 and U+FEFF, here by their UTF-8 bytes.
\<close>

definition white_space :: "string list" where
  "white_space =
     [[CHR 0x09], [CHR 0x0A], [CHR 0x0B], [CHR 0x0C], [CHR 0x0D], [CHR 0x20],
      [CHR 0xC2, CHR 0xA0],
      [CHR 0xE1, CHR 0x9A, CHR 0x80],
      [CHR 0xE2, CHR 0x80, CHR 0x80], [CHR 0xE2, CHR 0x80, CHR 0x81],
      [CHR 0xE2, CHR 0x80, CHR 0x82], [CHR 0xE2, CHR 0x80, CHR 0x83],
      [CHR 0xE2, CHR 0x80, CHR 0x84], [CHR 0xE2, CHR 0x80, CHR 0x85],
      [CHR 0xE2, CHR 0x80, CHR 0x86], [CHR 0xE2, CHR 0x80, CHR 0x87],
      [CHR 0xE2, CHR 0x80, CHR 0x88], [CHR 0xE2, CHR 0x80, CHR 0x89],
      [CHR 0xE2, CHR 0x80, CHR 0x8A],
      [CHR 0xE2, CHR 0x80, CHR 0xA8], [CHR 0xE2, CHR 0x80, CHR 0xA9],
      [CHR 0xE2, CHR 0x80, CHR 0xAF],
      [CHR 0xE2, CHR 0x81, CHR 0x9F],
      [CHR 0xE3, CHR 0x80, CHR 0x80],
      [CHR 0xEF, CHR 0xBB, CHR 0xBF]]"

text \<open>The number of bytes of the white-space character at the head of a string (0 when
  there is none), and the string without the white space at its head.\<close>

definition head_space :: "string list \<Rightarrow> string \<Rightarrow> nat" where
  "head_space pats s =
     (case List.find (\<lambda>p. take (length p) s = p) pats of None \<Rightarrow> 0 | Some p \<Rightarrow> length p)"

fun drop_spaces :: "string list \<Rightarrow> nat \<Rightarrow> string \<Rightarrow> string" where
  "drop_spaces pats skip [] = []"
| "drop_spaces pats (Suc skip) (c # cs) = drop_spaces pats skip cs"
| "drop_spaces pats 0 (c # cs) =
     (if head_space pats (c # cs) = 0 then c # cs
      else drop_spaces pats (head_space pats (c # cs) - 1) cs)"

definition trim :: "string \<Rightarrow> string" where
  "trim s = rev (drop_spaces (map rev white_space) 0 (rev (drop_spaces white_space 0 s)))"

text \<open>The lower-case letter of an ASCII capital.\<close>

definition lower_char :: "char \<Rightarrow> char" where
  "lower_char c =
     (if 65 \<le> (of_char c :: nat) \<and> (of_char c :: nat) \<le> 90
      then char_of ((of_char c :: nat) + 32) else c)"

section \<open>Errors, messages to the popup, network requests\<close>

text \<open>
  An exception is a value: \<open>Error m\<close> is \<^verbatim>\<open>new Error(m)\<close> of the source; the
  others are raised by the engine (their text names the failing access, the engine's own
  wording is not part of the source) or carry the text the environment gives.
\<close>

datatype js_error = Error string | TypeError string | SyntaxError string
  | FetchRejected string

fun error_message :: "js_error \<Rightarrow> string" where
  "error_message (Error m) = m"
| "error_message (TypeError m) = m"
| "error_message (SyntaxError m) = m"
| "error_message (FetchRejected m) = m"

record comment =
  comment_id :: jsval
  comment_text :: json

record sentiment_counts =
  positive :: nat
  negative :: nat
  neutral :: nat

record analysis =
  totalFetched :: nat
  totalAnalyzed :: nat
  sentiment :: sentiment_counts
  sampleAnalyzedComments :: "(comment \<times> string) list"

record fact_result =
  verdict :: json
  confidence :: json
  explanation :: json
  sources :: "json list"

datatype payload = PText string | PAnalysis analysis | PFact fact_result

text \<open>
  What \<^verbatim>\<open>chrome.runtime.sendMessage\<close> carries to the popup: a status message
  (\<^verbatim>\<open>action: "updateStatus"\<close>, message, isError, and isProcessing when it is
  defined), or a result message (action, data when truthy, error when truthy).
\<close>

datatype message =
  StatusMessage string bool "bool option"
| ResultMessage string "payload option" "string option"

datatype endpoint = WatchPage | TimedText json | CaptionsList | CommentThreads nat
  | GeminiFlash nat | GeminiPro

datatype effect = SendMessage message | Fetch endpoint

definition updatePopupStatus :: "string \<Rightarrow> bool \<Rightarrow> bool option \<Rightarrow> effect" where
  "updatePopupStatus m isError isProcessing = SendMessage (StatusMessage m isError isProcessing)"

fun truthy_payload :: "payload \<Rightarrow> bool" where
  "truthy_payload (PText s) = (s \<noteq> [])"
| "truthy_payload p = True"

definition sendDataToPopup :: "string \<Rightarrow> payload option \<Rightarrow> string option \<Rightarrow> effect" where
  "sendDataToPopup action d e =
     SendMessage (ResultMessage action
       (case d of None \<Rightarrow> None | Some p \<Rightarrow> if truthy_payload p then Some p else None)
       (case e of None \<Rightarrow> None | Some m \<Rightarrow> if m \<noteq> [] then Some m else None))"

section \<open>The environment\<close>

text \<open>
  Everything outside the source is a parameter: the extension's storage, the script
  injected in the tab, every HTTP answer, \<^verbatim>\<open>JSON.parse\<close> (applied to a value, which
  it converts to a string first; \<open>Inl\<close> is the text of the SyntaxError it throws) and
  the match of \<^verbatim>\<open>/ytInitialPlayerResponse\s*=\s*({.+?})\s*;/\<close> (its first group),
  and what \<^verbatim>\<open>toLowerCase\<close> gives on a string that has characters outside ASCII
  (the Unicode case tables).
  A \<^verbatim>\<open>fetch\<close> either rejects or gives a response; \<^verbatim>\<open>response.json()\<close> is
  \<^verbatim>\<open>JSON.parse\<close> of the body, \<^verbatim>\<open>response.text()\<close> the body.
\<close>

record response =
  ok :: bool
  status :: nat
  statusText :: string
  body :: string

datatype fetched = Rejected string | Response response

record env =
  storage_get :: "string + (jsval \<times> jsval)"
  executeScript :: "string + jsval"
  JSON_parse :: "json \<Rightarrow> string + json"
  match_player_response :: "string \<Rightarrow> string option"
  lower_unicode :: "string \<Rightarrow> string"
  fetch_watch_page :: fetched
  fetch_timed_text :: "json \<Rightarrow> fetched"
  fetch_captions :: fetched
  fetch_comments :: "nat \<Rightarrow> fetched"
  fetch_gemini_flash :: "nat \<Rightarrow> fetched"
  fetch_gemini_pro :: fetched

text \<open>\<^verbatim>\<open>String.prototype.toLowerCase\<close>: on an ASCII string the capitals are lowered;
  on any other string the result is the environment's.\<close>

definition toLowerCase :: "env \<Rightarrow> string \<Rightarrow> string" where
  "toLowerCase e s =
     (if list_all (\<lambda>c. (of_char c :: nat) < 128) s then map lower_char s else lower_unicode e s)"

definition response_json :: "env \<Rightarrow> response \<Rightarrow> js_error + json" where
  "response_json e r =
     (case JSON_parse e (JStr (body r)) of Inl m \<Rightarrow> Inl (SyntaxError m) | Inr j \<Rightarrow> Inr j)"

text \<open>\<^verbatim>\<open>loadAPIKeys\<close>: the two stored keys, a falsy one replaced by null; both
  null when the storage fails.\<close>

definition loadAPIKeys :: "env \<Rightarrow> jsval \<times> jsval" where
  "loadAPIKeys e =
     (case storage_get e of
        Inl m \<Rightarrow> (Some JNull, Some JNull)
      | Inr (y, g) \<Rightarrow>
          (if truthy y then y else Some JNull, if truthy g then g else Some JNull))"

text \<open>\<^verbatim>\<open>getVideoIdFromTab\<close>: the script's result, or an error wrapped by the catch.\<close>

definition getVideoIdFromTab :: "env \<Rightarrow> js_error + json" where
  "getVideoIdFromTab e =
     (case executeScript e of
        Inl m \<Rightarrow> Inl (Error (''Failed to get video ID: '' @ m))
      | Inr v \<Rightarrow>
          (case v of
             None \<Rightarrow> Inl (Error ''Failed to get video ID: Could not extract video ID from URL.'')
           | Some j \<Rightarrow>
               if truthy_json j then Inr j
               else Inl (Error ''Failed to get video ID: Could not extract video ID from URL.'')))"

fun map_result :: "('a \<Rightarrow> js_error + 'b) \<Rightarrow> 'a list \<Rightarrow> js_error + 'b list" where
  "map_result f [] = Inr []"
| "map_result f (x # xs) =
     (case f x of
        Inl e \<Rightarrow> Inl e
      | Inr y \<Rightarrow> (case map_result f xs of Inl e \<Rightarrow> Inl e | Inr ys \<Rightarrow> Inr (y # ys)))"

definition api_error_message :: "string \<Rightarrow> response \<Rightarrow> json \<Rightarrow> string" where
  "api_error_message prefix r errorData =
     prefix @ '' ('' @ show_nat (status r) @ ''): '' @
     (let m = opt_prop (opt_prop (Some errorData) ''error'') ''message''
      in if truthy m then js_string_val m else statusText r)"

section \<open>Transcript: track selection\<close>

record track =
  languageCode :: jsval
  kind :: jsval
  baseUrl :: jsval

definition track_of :: "json \<Rightarrow> track" where
  "track_of t = \<lparr>languageCode = get_prop t ''languageCode'', kind = get_prop t ''kind'',
                 baseUrl = get_prop t ''baseUrl''\<rparr>"

text \<open>\<^verbatim>\<open>tracks.find(t => t.languageCode === lang && !t.kind)\<close> and
  \<^verbatim>\<open>tracks.find(t => t.languageCode === lang && t.kind === 'asr')\<close>.\<close>

definition find_human :: "track list \<Rightarrow> string \<Rightarrow> track option" where
  "find_human tracks lang =
     List.find (\<lambda>t. languageCode t = Some (JStr lang) \<and> \<not> truthy (kind t)) tracks"

definition find_asr :: "track list \<Rightarrow> string \<Rightarrow> track option" where
  "find_asr tracks lang =
     List.find (\<lambda>t. languageCode t = Some (JStr lang) \<and> kind t = Some (JStr ''asr'')) tracks"

text \<open>The loop over \<^verbatim>\<open>langPrefs\<close>; the state is (bestTrackUrl, foundLang).\<close>

fun select_loop :: "track list \<Rightarrow> string list \<Rightarrow> jsval \<times> string option \<Rightarrow> jsval \<times> string option" where
  "select_loop tracks [] st = st"
| "select_loop tracks (lang # rest) (bestTrackUrl, foundLang) =
     (case find_human tracks lang of
        Some t \<Rightarrow> (baseUrl t, Some lang)
      | None \<Rightarrow>
          (case find_asr tracks lang of
             Some a \<Rightarrow>
               if \<not> truthy bestTrackUrl
               then select_loop tracks rest (baseUrl a, Some (lang @ '' (auto)''))
               else select_loop tracks rest (bestTrackUrl, foundLang)
           | None \<Rightarrow> select_loop tracks rest (bestTrackUrl, foundLang)))"

text \<open>The loop, then the first track when nothing truthy was found.\<close>

definition select_track :: "track list \<Rightarrow> string list \<Rightarrow> jsval \<times> string option" where
  "select_track tracks langPrefs =
     (case select_loop tracks langPrefs (Some JNull, None) of
        (bestTrackUrl, foundLang) \<Rightarrow>
          (case tracks of
             [] \<Rightarrow> (bestTrackUrl, foundLang)
           | t0 # rest \<Rightarrow>
               if \<not> truthy bestTrackUrl
               then (baseUrl t0,
                     Some (js_string_val (languageCode t0) @
                           (if kind t0 = Some (JStr ''asr'') then '' (auto)'' else [])))
               else (bestTrackUrl, foundLang)))"

section \<open>Transcript: text extraction\<close>

text \<open>First index at which a pattern occurs in a string.\<close>

fun find_sub :: "string \<Rightarrow> string \<Rightarrow> nat option" where
  "find_sub pat [] = (if pat = [] then Some 0 else None)"
| "find_sub pat (c # cs) =
     (if take (length pat) (c # cs) = pat then Some 0 else map_option Suc (find_sub pat cs))"

text \<open>
  \<^verbatim>\<open>/<text.*?>(.*?)<\/text>/gs\<close>: a match starts at \<^verbatim>\<open><text\<close>, runs to the first
  \<^verbatim>\<open>>\<close> after it and from there to the end of the first \<^verbatim>\<open></text>\<close>
  (both quantifiers are lazy, the dot matches every character). \<open>match_text_here\<close> is
  the length of the match at the head of the string; the scan resumes after a match.
\<close>

definition match_text_here :: "string \<Rightarrow> nat option" where
  "match_text_here s =
     (if take 5 s = ''<text'' then
        (case find_sub ''>'' (drop 5 s) of
           None \<Rightarrow> None
         | Some j \<Rightarrow>
             (case find_sub ''</text>'' (drop (5 + j + 1) s) of
                None \<Rightarrow> None
              | Some k \<Rightarrow> Some (5 + j + 1 + k + 7)))
      else None)"

fun text_matches_from :: "nat \<Rightarrow> string \<Rightarrow> string list" where
  "text_matches_from skip [] = []"
| "text_matches_from (Suc skip) (c # cs) = text_matches_from skip cs"
| "text_matches_from 0 (c # cs) =
     (case match_text_here (c # cs) of
        Some n \<Rightarrow> take n (c # cs) # text_matches_from (n - 1) cs
      | None \<Rightarrow> text_matches_from 0 cs)"

definition text_matches :: "string \<Rightarrow> string list" where
  "text_matches xml = text_matches_from 0 xml"

text \<open>
  \<^verbatim>\<open>replace(/<[^>]+>/g, '')\<close>: at a \<^verbatim>\<open><\<close>, the characters up to the next
  \<^verbatim>\<open>>\<close> (at least one) and that \<^verbatim>\<open>>\<close> are removed.
\<close>

definition tag_skip :: "string \<Rightarrow> nat option" where
  "tag_skip cs =
     (let run = takeWhile (\<lambda>x. x \<noteq> CHR ''>'') cs
      in if run \<noteq> [] \<and> length run < length cs then Some (length run + 1) else None)"

fun strip_tags_from :: "nat \<Rightarrow> string \<Rightarrow> string" where
  "strip_tags_from skip [] = []"
| "strip_tags_from (Suc skip) (c # cs) = strip_tags_from skip cs"
| "strip_tags_from 0 (c # cs) =
     (if c = CHR ''<'' then
        (case tag_skip cs of
           Some n \<Rightarrow> strip_tags_from n cs
         | None \<Rightarrow> c # strip_tags_from 0 cs)
      else c # strip_tags_from 0 cs)"

definition strip_tags :: "string \<Rightarrow> string" where
  "strip_tags s = strip_tags_from 0 s"

text \<open>
  \<^verbatim>\<open>replace(/c/g, r)\<close> for a one-character pattern, and the five replacements of
  line 151 as the source has them:
  \<^verbatim>\<open>text.replace(/&/g, '&').replace(/</g, '<').replace(/>/g, '>').replace(/"/g, '"').replace(/'/g, "'")\<close>.
\<close>

definition replace_all :: "char \<Rightarrow> string \<Rightarrow> string \<Rightarrow> string" where
  "replace_all c r s = concat (map (\<lambda>x. if x = c then r else [x]) s)"

definition decode_entities :: "string \<Rightarrow> string" where
  "decode_entities t =
     replace_all (CHR 0x27) [CHR 0x27]
       (replace_all (CHR 0x22) [CHR 0x22]
          (replace_all (CHR ''>'') ''>''
             (replace_all (CHR ''<'') ''<''
                (replace_all (CHR ''&'') ''&'' t))))"

definition transcript_lines :: "string \<Rightarrow> string list" where
  "transcript_lines xml = map (\<lambda>m. trim (decode_entities (strip_tags m))) (text_matches xml)"

definition extract_transcript :: "string \<Rightarrow> js_error + string" where
  "extract_transcript xml =
     (let lines = transcript_lines xml
      in if lines = [] then Inl (Error ''Transcript content fetched but no text found after parsing.'')
         else Inr (array_join nl lines))"

section \<open>Transcript: the two stages\<close>

text \<open>\<^verbatim>\<open>v || d\<close>.\<close>

fun or_default :: "jsval \<Rightarrow> json \<Rightarrow> json" where
  "or_default None d = d"
| "or_default (Some j) d = (if truthy_json j then j else d)"

text \<open>
  \<^verbatim>\<open>fetchAvailableTranscriptLangsAPI\<close>. One line of the message per item:
  \<^verbatim>\<open>`${item.snippet.language} (${item.snippet.trackKind})`\<close>.
\<close>

definition caption_language :: "json \<Rightarrow> js_error + string" where
  "caption_language item =
     (if item = JNull then Inl (TypeError ''item is null'')
      else
        (case get_prop item ''snippet'' of
           None \<Rightarrow> Inl (TypeError ''item.snippet is undefined'')
         | Some sn \<Rightarrow>
             if sn = JNull then Inl (TypeError ''item.snippet is null'')
             else Inr (js_string_val (get_prop sn ''language'') @ '' ('' @
                       js_string_val (get_prop sn ''trackKind'') @ '')'')))"

definition captions_message :: "json \<Rightarrow> js_error + string" where
  "captions_message captionsData =
     (if captionsData = JNull then Inl (TypeError ''captionsData is null'')
      else
        (case get_prop captionsData ''items'' of
           None \<Rightarrow> Inl (Error ''No captions found via API for this video.'')
         | Some items \<Rightarrow>
             if \<not> truthy_json items \<or> length_is_zero items
             then Inl (Error ''No captions found via API for this video.'')
             else
               (case items of
                  JArr xs \<Rightarrow>
                    (case map_result caption_language xs of
                       Inl err \<Rightarrow> Inl err
                     | Inr languages \<Rightarrow>
                         Inr (''Transcript text download requires OAuth or may be restricted.'' @ nl @
                              ''Available caption tracks found via API:'' @ nl @ ''- '' @
                              array_join (nl @ ''- '') languages))
                | other \<Rightarrow> Inl (TypeError ''captionsData.items.map is not a function''))))"

definition captions_request :: "env \<Rightarrow> js_error + string" where
  "captions_request e =
     (case fetch_captions e of
        Rejected m \<Rightarrow> Inl (FetchRejected m)
      | Response r \<Rightarrow>
          (case response_json e r of
             Inl err \<Rightarrow> Inl err
           | Inr data \<Rightarrow>
               if \<not> ok r then Inl (Error (api_error_message ''API Error'' r data))
               else captions_message data))"

definition fetchAvailableTranscriptLangsAPI :: "env \<Rightarrow> json \<Rightarrow> effect list \<times> (js_error + string option)" where
  "fetchAvailableTranscriptLangsAPI e videoId =
     (let s = updatePopupStatus ''Fetching available caption languages via API...'' False None
      in if \<not> truthy (fst (loadAPIKeys e))
         then ([s], Inl (Error ''YouTube API Key not set in options.''))
         else
           (case captions_request e of
              Inr message \<Rightarrow>
                ([s, Fetch CaptionsList,
                  sendDataToPopup ''displayTranscript'' (Some (PText message)) None],
                 Inr (Some message))
            | Inl err \<Rightarrow>
                ([s, Fetch CaptionsList,
                  sendDataToPopup ''displayTranscript'' None
                    (Some (''Transcript check via API failed: '' @ error_message err))],
                 Inr None)))"

text \<open>
  Lines 93 to 104 of \<^verbatim>\<open>fetchTranscriptFromPage\<close>: the caption tracks of the player
  response; \<open>Inr None\<close> where the source returns the API fallback at once.
\<close>

definition caption_tracks :: "json \<Rightarrow> js_error + track list option" where
  "caption_tracks playerResponse =
     (case opt_prop (opt_prop (Some playerResponse) ''captions'') ''playerCaptionsTracklistRenderer'' of
        None \<Rightarrow> Inr None
      | Some renderer \<Rightarrow>
          if \<not> truthy_json renderer then Inr None
          else
            (case get_prop renderer ''captionTracks'' of
               None \<Rightarrow> Inr None
             | Some tracks \<Rightarrow>
                 if \<not> truthy_json tracks \<or> length_is_zero tracks then Inr None
                 else
                   (case tracks of
                      JArr ts \<Rightarrow>
                        if JNull \<in> set ts then Inl (TypeError ''t is null'')
                        else Inr (Some (map track_of ts))
                    | other \<Rightarrow> Inl (TypeError ''tracks.map is not a function''))))"

definition timed_text_request :: "env \<Rightarrow> json \<Rightarrow> js_error + string" where
  "timed_text_request e url =
     (case fetch_timed_text e url of
        Rejected m \<Rightarrow> Inl (FetchRejected m)
      | Response r \<Rightarrow>
          if \<not> ok r then Inl (Error (''Failed to fetch transcript content: '' @ statusText r))
          else extract_transcript (body r))"

fun lang_text :: "string option \<Rightarrow> string" where
  "lang_text None = ''null''"
| "lang_text (Some s) = s"

text \<open>
  The try block of \<^verbatim>\<open>fetchTranscriptFromPage\<close>: \<open>Inl\<close> is what it throws (its own
  catch takes it), \<open>Inr Fallback\<close> a direct return of the API fallback, \<open>Inr (Transcript
  lang t)\<close> the transcript it has sent to the popup.
\<close>

datatype page_outcome = Fallback | Transcript string string

definition page_stage :: "env \<Rightarrow> string list \<Rightarrow> effect list \<times> (js_error + page_outcome)" where
  "page_stage e langPrefs =
     (case fetch_watch_page e of
        Rejected m \<Rightarrow> ([Fetch WatchPage], Inl (FetchRejected m))
      | Response r \<Rightarrow>
          if \<not> ok r
          then ([Fetch WatchPage], Inl (Error (''Failed to fetch watch page: '' @ statusText r)))
          else
            (case match_player_response e (body r) of
               None \<Rightarrow> ([Fetch WatchPage], Inr Fallback)
             | Some m \<Rightarrow>
                 if m = [] then ([Fetch WatchPage], Inr Fallback)
                 else
                   (case JSON_parse e (JStr m) of
                      Inl msg \<Rightarrow> ([Fetch WatchPage], Inl (SyntaxError msg))
                    | Inr playerResponse \<Rightarrow>
                        (case caption_tracks playerResponse of
                           Inl err \<Rightarrow> ([Fetch WatchPage], Inl err)
                         | Inr None \<Rightarrow> ([Fetch WatchPage], Inr Fallback)
                         | Inr (Some tracks) \<Rightarrow>
                             (case select_track tracks langPrefs of
                                (bestTrackUrl, foundLang) \<Rightarrow>
                                  if \<not> truthy bestTrackUrl
                                  then ([Fetch WatchPage],
                                        Inl (Error ''Could not find a suitable caption track URL in page data.''))
                                  else
                                    (let url = or_default bestTrackUrl JNull;
                                         s = updatePopupStatus
                                               (''Fetching transcript content for language: '' @
                                                lang_text foundLang @ ''...'') False None
                                     in case timed_text_request e url of
                                          Inl err \<Rightarrow>
                                            ([Fetch WatchPage, s, Fetch (TimedText url)], Inl err)
                                        | Inr fullTranscript \<Rightarrow>
                                            ([Fetch WatchPage, s, Fetch (TimedText url),
                                              sendDataToPopup ''displayTranscript''
                                                (Some (PText (''Transcript ('' @ lang_text foundLang @
                                                   ''):'' @ nl @ ''--------------------'' @ nl @
                                                   fullTranscript))) None],
                                             Inr (Transcript (lang_text foundLang) fullTranscript))))))))"

definition fetchTranscriptFromPage :: "env \<Rightarrow> json \<Rightarrow> string list \<Rightarrow> effect list \<times> (js_error + string option)" where
  "fetchTranscriptFromPage e videoId langPrefs =
     (let s0 = updatePopupStatus ''Attempting to fetch transcript data from page...'' False (Some True)
      in case page_stage e langPrefs of
           (effs, Inr (Transcript lang fullTranscript)) \<Rightarrow> (s0 # effs, Inr (Some fullTranscript))
         | (effs, Inr Fallback) \<Rightarrow>
             (case fetchAvailableTranscriptLangsAPI e videoId of
                (effs2, res) \<Rightarrow> (s0 # effs @ effs2, res))
         | (effs, Inl err) \<Rightarrow>
             (case fetchAvailableTranscriptLangsAPI e videoId of
                (effs2, res) \<Rightarrow>
                  (s0 # effs @
                   [updatePopupStatus (''Transcript fetch from page failed: '' @ error_message err @
                      ''. Trying API list fallback...'') True None] @ effs2, res)))"

section \<open>Comment analysis\<close>

text \<open>One fetched page: lines 236 to 243 of \<^verbatim>\<open>fetchAndAnalyzeComments\<close>.\<close>

definition comment_of :: "json \<Rightarrow> js_error + comment" where
  "comment_of item =
     (if item = JNull then Inl (TypeError ''item is null'')
      else Inr \<lparr>comment_id = get_prop item ''id'',
                comment_text =
                  or_default
                    (opt_prop (opt_prop (opt_prop (get_prop item ''snippet'') ''topLevelComment'')
                       ''snippet'') ''textOriginal'')
                    (JStr [])\<rparr>)"

definition page_comments :: "json \<Rightarrow> js_error + comment list" where
  "page_comments commentsData =
     (if commentsData = JNull then Inl (TypeError ''commentsData is null'')
      else
        (case get_prop commentsData ''items'' of
           None \<Rightarrow> Inr []
         | Some items \<Rightarrow>
             if \<not> truthy_json items then Inr []
             else
               (case items of
                  JArr xs \<Rightarrow> map_result comment_of xs
                | other \<Rightarrow> Inl (TypeError ''commentsData.items.map is not a function''))))"

text \<open>
  The \<^verbatim>\<open>do ... while (nextPageToken && fetchedCount < maxResults)\<close> loop. A server
  that keeps sending a page token with empty pages keeps it running, so the loop takes
  fuel: \<open>None\<close> is a loop that has not ended within it.
\<close>

fun fetch_pages :: "nat \<Rightarrow> env \<Rightarrow> nat \<Rightarrow> nat \<Rightarrow> comment list \<Rightarrow> nat \<Rightarrow> (effect list \<times> (js_error + comment list \<times> nat)) option" where
  "fetch_pages 0 e maxResults page comments fetchedCount = None"
| "fetch_pages (Suc fuel) e maxResults page comments fetchedCount =
     (let effs = [updatePopupStatus (''Fetching comment page (fetched '' @ show_nat fetchedCount @
                    ''/'' @ show_nat maxResults @ '')...'') False None,
                  Fetch (CommentThreads page)]
      in case fetch_comments e page of
           Rejected m \<Rightarrow> Some (effs, Inl (FetchRejected m))
         | Response r \<Rightarrow>
             (case response_json e r of
                Inl err \<Rightarrow> Some (effs, Inl err)
              | Inr commentsData \<Rightarrow>
                  if \<not> ok r
                  then Some (effs, Inl (Error (api_error_message ''API Error'' r commentsData)))
                  else
                    (case page_comments commentsData of
                       Inl err \<Rightarrow> Some (effs, Inl err)
                     | Inr pageComments \<Rightarrow>
                         if truthy (get_prop commentsData ''nextPageToken'')
                            \<and> fetchedCount + length pageComments < maxResults
                         then
                           (case fetch_pages fuel e maxResults (Suc page) (comments @ pageComments)
                                   (fetchedCount + length pageComments) of
                              None \<Rightarrow> None
                            | Some (effs2, res) \<Rightarrow> Some (effs @ effs2, res))
                         else Some (effs, Inr (comments @ pageComments,
                                               fetchedCount + length pageComments)))))"

text \<open>\<^verbatim>\<open>comments.slice(i, i + batchSize)\<close> for i = 0, 10, 20, ...\<close>

fun batches :: "'a list \<Rightarrow> 'a list list" where
  "batches xs = (if xs = [] then [] else take 10 xs # batches (drop 10 xs))"

declare batches.simps [simp del]

text \<open>
  \<^verbatim>\<open>sentimentCounts[sentiment] !== undefined\<close> on the object literal
  \<^verbatim>\<open>{ positive: 0, negative: 0, neutral: 0 }\<close>: defined for its three own keys and
  for the keys it inherits from \<^verbatim>\<open>Object.prototype\<close>; of those, the lower-case
  ones (the lower-cased sentiments are among them) are \<^verbatim>\<open>constructor\<close> and
  \<^verbatim>\<open>__proto__\<close>. \<^verbatim>\<open>sentimentCounts[sentiment]++\<close> on an inherited key writes
  NaN under that key (or nothing, for \<^verbatim>\<open>__proto__\<close>) and leaves the three counters.
\<close>

definition counts_defined :: "string \<Rightarrow> bool" where
  "counts_defined s =
     (s = ''positive'' \<or> s = ''negative'' \<or> s = ''neutral''
      \<or> s = ''constructor'' \<or> s = ''__proto__'')"

definition increment_key :: "sentiment_counts \<Rightarrow> string \<Rightarrow> sentiment_counts" where
  "increment_key c s =
     (if s = ''positive'' then c\<lparr>positive := positive c + 1\<rparr>
      else if s = ''negative'' then c\<lparr>negative := negative c + 1\<rparr>
      else if s = ''neutral'' then c\<lparr>neutral := neutral c + 1\<rparr>
      else c)"

definition count_sentiment :: "sentiment_counts \<Rightarrow> string \<Rightarrow> sentiment_counts" where
  "count_sentiment c s =
     (if counts_defined s then increment_key c s else c\<lparr>neutral := neutral c + 1\<rparr>)"

type_synonym tally = "(comment \<times> string) list \<times> sentiment_counts"

text \<open>The body of \<^verbatim>\<open>sentiments.forEach\<close> (lines 288 to 297), and the loop: an
  exception leaves what the earlier elements have pushed and counted.\<close>

definition apply_sentiment :: "env \<Rightarrow> comment list \<Rightarrow> tally \<Rightarrow> json \<Rightarrow> js_error + tally" where
  "apply_sentiment e batch st sentimentResult =
     (if sentimentResult = JNull then Inl (TypeError ''sentimentResult is null'')
      else
        (case List.find (\<lambda>c. strict_eq (comment_id c) (get_prop sentimentResult ''id'')) batch of
           None \<Rightarrow> Inr st
         | Some originalComment \<Rightarrow>
             (case or_default (get_prop sentimentResult ''sentiment'') (JStr ''neutral'') of
                JStr s \<Rightarrow>
                  Inr (fst st @ [(originalComment, toLowerCase e s)],
                       count_sentiment (snd st) (toLowerCase e s))
              | other \<Rightarrow> Inl (TypeError ''toLowerCase is not a function''))))"

fun forEach_sentiments :: "env \<Rightarrow> comment list \<Rightarrow> tally \<Rightarrow> json list \<Rightarrow> tally \<times> js_error option" where
  "forEach_sentiments e batch st [] = (st, None)"
| "forEach_sentiments e batch st (x # xs) =
     (case apply_sentiment e batch st x of
        Inl err \<Rightarrow> (st, Some err)
      | Inr st' \<Rightarrow> forEach_sentiments e batch st' xs)"

text \<open>The catch of lines 303 to 308.\<close>

definition label_neutral :: "comment list \<Rightarrow> tally \<Rightarrow> tally" where
  "label_neutral batch st =
     (fst st @ map (\<lambda>c. (c, ''neutral'')) batch,
      (snd st)\<lparr>neutral := neutral (snd st) + length batch\<rparr>)"

definition gemini_content :: "json \<Rightarrow> jsval" where
  "gemini_content geminiResult =
     opt_prop (opt_index0 (opt_prop (Some geminiResult) ''candidates'')) ''content''"

definition gemini_text :: "json \<Rightarrow> jsval" where
  "gemini_text geminiResult =
     opt_prop (opt_index0 (opt_prop (gemini_content geminiResult) ''parts'')) ''text''"

text \<open>Lines 281 to 308: the answer of a successful call.\<close>

definition classify_batch :: "env \<Rightarrow> comment list \<Rightarrow> tally \<Rightarrow> json \<Rightarrow> tally" where
  "classify_batch e batch st geminiResult =
     (case JSON_parse e (or_default (gemini_text geminiResult) (JStr [])) of
        Inl m \<Rightarrow> label_neutral batch st
      | Inr sentiments \<Rightarrow>
          (case sentiments of
             JArr xs \<Rightarrow>
               (case forEach_sentiments e batch st xs of
                  (st', None) \<Rightarrow> st'
                | (st', Some err) \<Rightarrow> label_neutral batch st')
           | other \<Rightarrow> st))"

text \<open>One turn of the batch loop (lines 264 to 308), for batch number i.\<close>

definition process_batch :: "env \<Rightarrow> nat \<Rightarrow> comment list \<Rightarrow> tally \<Rightarrow> js_error + tally" where
  "process_batch e i batch st =
     (case fetch_gemini_flash e i of
        Rejected m \<Rightarrow> Inl (FetchRejected m)
      | Response r \<Rightarrow>
          if \<not> ok r then Inr st
          else
            (case response_json e r of
               Inl err \<Rightarrow> Inl err
             | Inr geminiResult \<Rightarrow> Inr (classify_batch e batch st geminiResult)))"

fun analyze_batches :: "env \<Rightarrow> nat \<Rightarrow> comment list list \<Rightarrow> tally \<Rightarrow> effect list \<times> (js_error + tally)" where
  "analyze_batches e i [] st = ([], Inr st)"
| "analyze_batches e i (batch # rest) st =
     (case process_batch e i batch st of
        Inl err \<Rightarrow> ([Fetch (GeminiFlash i)], Inl err)
      | Inr st' \<Rightarrow>
          (case analyze_batches e (Suc i) rest st' of
             (effs, res) \<Rightarrow> (Fetch (GeminiFlash i) # effs, res)))"

definition comments_catch :: "js_error \<Rightarrow> effect list" where
  "comments_catch err =
     [sendDataToPopup ''displayCommentAnalysis'' None
        (Some (''Comment analysis failed: '' @ error_message err)),
      updatePopupStatus (''Comment analysis failed: '' @ error_message err) True (Some False)]"

definition zero_counts :: sentiment_counts where
  "zero_counts = \<lparr>positive = 0, negative = 0, neutral = 0\<rparr>"

definition fetchAndAnalyzeComments :: "nat \<Rightarrow> env \<Rightarrow> json \<Rightarrow> nat \<Rightarrow> (effect list \<times> (js_error + analysis option)) option" where
  "fetchAndAnalyzeComments fuel e videoId maxResults =
     (let s0 = updatePopupStatus (''Fetching comments for video: '' @ js_string videoId @ ''...'')
                 False (Some True)
      in if \<not> truthy (fst (loadAPIKeys e))
         then Some ([s0], Inl (Error ''YouTube API Key not set in options.''))
         else if \<not> truthy (snd (loadAPIKeys e))
         then Some ([s0], Inl (Error ''Gemini API Key not set in options.''))
         else
           (case fetch_pages fuel e maxResults 0 [] 0 of
              None \<Rightarrow> None
            | Some (effs, Inl err) \<Rightarrow> Some (s0 # effs @ comments_catch err, Inl err)
            | Some (effs, Inr (comments, fetchedCount)) \<Rightarrow>
                if comments = []
                then Some (s0 # effs @
                       [sendDataToPopup ''displayCommentAnalysis''
                          (Some (PAnalysis \<lparr>totalFetched = 0, totalAnalyzed = 0,
                             sentiment = zero_counts, sampleAnalyzedComments = []\<rparr>)) None,
                        updatePopupStatus ''No comments found or fetched.'' False (Some False)],
                       Inr None)
                else
                  (case analyze_batches e 0 (batches comments) ([], zero_counts) of
                     (effs2, Inl err) \<Rightarrow>
                       Some (s0 # effs @
                         updatePopupStatus (''Analyzing '' @ show_nat (length comments) @
                           '' comments using Gemini...'') False None # effs2 @ comments_catch err,
                         Inl err)
                   | (effs2, Inr (analyzedComments, sentimentCounts)) \<Rightarrow>
                       Some (s0 # effs @
                         updatePopupStatus (''Analyzing '' @ show_nat (length comments) @
                           '' comments using Gemini...'') False None # effs2 @
                         [sendDataToPopup ''displayCommentAnalysis''
                            (Some (PAnalysis \<lparr>totalFetched = fetchedCount,
                               totalAnalyzed = length analyzedComments,
                               sentiment = sentimentCounts,
                               sampleAnalyzedComments = analyzedComments\<rparr>)) None,
                          updatePopupStatus (''Analyzed '' @ show_nat (length analyzedComments) @
                            '' comments.'') False (Some False)],
                         Inr (Some \<lparr>totalFetched = fetchedCount,
                               totalAnalyzed = length analyzedComments,
                               sentiment = sentimentCounts,
                               sampleAnalyzedComments = analyzedComments\<rparr>)))))"

section \<open>Fact check\<close>

text \<open>Lines 380 to 394 of \<^verbatim>\<open>performFactCheck\<close>: the parsed result.\<close>

definition parse_fact_response :: "env \<Rightarrow> json \<Rightarrow> js_error + json" where
  "parse_fact_response e geminiResult =
     (if truthy (gemini_text geminiResult) then
        (case JSON_parse e (or_default (gemini_text geminiResult) JNull) of
           Inl m \<Rightarrow> Inl (Error ''Fact-check response from Gemini was not valid JSON.'')
         | Inr parsedResult \<Rightarrow> Inr parsedResult)
      else if typeof_object (gemini_content geminiResult) then
        (case gemini_content geminiResult of
           None \<Rightarrow> Inl (Error ''Could not find parsable content in Gemini fact-check response.'')
         | Some parsedResult \<Rightarrow> Inr parsedResult)
      else Inl (Error ''Could not find parsable content in Gemini fact-check response.''))"

text \<open>Lines 398 to 403: the formatted result; reading a field of null throws.\<close>

definition format_result :: "json \<Rightarrow> js_error + fact_result" where
  "format_result parsedResult =
     (if parsedResult = JNull then Inl (TypeError ''parsedResult is null'')
      else Inr \<lparr>verdict = or_default (get_prop parsedResult ''verdict'') (JStr ''Unknown''),
                confidence =
                  (case get_prop parsedResult ''confidence'' of None \<Rightarrow> JNull | Some c \<Rightarrow> c),
                explanation =
                  or_default (get_prop parsedResult ''explanation'') (JStr ''No explanation provided.''),
                sources =
                  (case get_prop parsedResult ''sources'' of
                     Some (JArr xs) \<Rightarrow> xs
                   | other \<Rightarrow> [])\<rparr>)"

text \<open>The try block of \<^verbatim>\<open>performFactCheck\<close>, after the request is sent.\<close>

definition fact_check_request :: "env \<Rightarrow> js_error + fact_result" where
  "fact_check_request e =
     (case fetch_gemini_pro e of
        Rejected m \<Rightarrow> Inl (FetchRejected m)
      | Response r \<Rightarrow>
          if \<not> ok r
          then Inl (Error (api_error_message ''Gemini API Error'' r
                     (case JSON_parse e (JStr (body r)) of Inl m \<Rightarrow> JObj [] | Inr j \<Rightarrow> j)))
          else
            (case response_json e r of
               Inl err \<Rightarrow> Inl err
             | Inr geminiResult \<Rightarrow>
                 (case parse_fact_response e geminiResult of
                    Inl err \<Rightarrow> Inl err
                  | Inr parsedResult \<Rightarrow> format_result parsedResult)))"

definition performFactCheck :: "env \<Rightarrow> json \<Rightarrow> effect list \<times> (js_error + fact_result)" where
  "performFactCheck e textToFactCheck =
     (let s0 = updatePopupStatus ''Fact-checking selected text...'' False (Some True)
      in if \<not> truthy (snd (loadAPIKeys e))
         then ([s0], Inl (Error ''Gemini API Key not set in options.''))
         else
           (case fact_check_request e of
              Inr formattedResult \<Rightarrow>
                ([s0, Fetch GeminiPro,
                  sendDataToPopup ''displayFactCheck'' (Some (PFact formattedResult)) None,
                  updatePopupStatus ''Fact-check complete.'' False (Some False)],
                 Inr formattedResult)
            | Inl err \<Rightarrow>
                ([s0, Fetch GeminiPro,
                  sendDataToPopup ''displayFactCheck'' None
                    (Some (''Fact-check failed: '' @ error_message err)),
                  updatePopupStatus (''Fact-check failed: '' @ error_message err) True (Some False)],
                 Inl err)))"

section \<open>The message listener\<close>

record request =
  req_action :: string
  req_tabId :: jsval
  req_text :: jsval

text \<open>
  \<^verbatim>\<open>chrome.runtime.onMessage.addListener\<close> of the background script: everything the
  operation a request starts sends and fetches, in order (\<open>None\<close>: the comment pages
  have not ended within the fuel).
\<close>

definition onMessage :: "nat \<Rightarrow> env \<Rightarrow> request \<Rightarrow> effect list option" where
  "onMessage fuel e request =
     (if req_action request = ''getTranscript'' \<and> truthy (req_tabId request) then
        Some (updatePopupStatus ''Getting video details...'' False (Some True) #
          (case getVideoIdFromTab e of
             Inl err \<Rightarrow>
               [updatePopupStatus (''Transcript Error: '' @ error_message err) True (Some False),
                sendDataToPopup ''displayTranscript'' None (Some (''Error: '' @ error_message err))]
           | Inr videoId \<Rightarrow>
               (case fetchTranscriptFromPage e videoId [''ta'', ''en''] of
                  (effs, Inl err) \<Rightarrow>
                    effs @
                    [updatePopupStatus (''Transcript Error: '' @ error_message err) True (Some False),
                     sendDataToPopup ''displayTranscript'' None (Some (''Error: '' @ error_message err))]
                | (effs, Inr res) \<Rightarrow> effs)))
      else if req_action request = ''analyzeComments'' \<and> truthy (req_tabId request) then
        (case getVideoIdFromTab e of
           Inl err \<Rightarrow>
             Some [updatePopupStatus ''Getting video details for comments...'' False (Some True),
                   updatePopupStatus (''Comments Error: '' @ error_message err) True (Some False),
                   sendDataToPopup ''displayCommentAnalysis'' None (Some (''Error: '' @ error_message err))]
         | Inr videoId \<Rightarrow>
             (case fetchAndAnalyzeComments fuel e videoId 50 of
                None \<Rightarrow> None
              | Some (effs, Inl err) \<Rightarrow>
                  Some (updatePopupStatus ''Getting video details for comments...'' False (Some True) #
                    effs @
                    [updatePopupStatus (''Comments Error: '' @ error_message err) True (Some False),
                     sendDataToPopup ''displayCommentAnalysis'' None
                       (Some (''Error: '' @ error_message err))])
              | Some (effs, Inr res) \<Rightarrow>
                  Some (updatePopupStatus ''Getting video details for comments...'' False (Some True) #
                    effs)))
      else if req_action request = ''factCheckSelection'' \<and> truthy (req_text request) then
        (case performFactCheck e (or_default (req_text request) JNull) of
           (effs, Inl err) \<Rightarrow>
             Some (effs @
               [updatePopupStatus (''Fact-check Error: '' @ error_message err) True (Some False)])
         | (effs, Inr res) \<Rightarrow> Some effs)
      else Some [])"

text \<open>The terminal result events: the three display actions.\<close>

fun terminal :: "effect \<Rightarrow> bool" where
  "terminal (SendMessage (ResultMessage action d err)) =
     (action = ''displayTranscript'' \<or> action = ''displayCommentAnalysis''
      \<or> action = ''displayFactCheck'')"
| "terminal eff = False"

definition terminal_events :: "effect list \<Rightarrow> effect list" where
  "terminal_events effs = filter terminal effs"

section \<open>Example inputs\<close>

text \<open>
  Concrete inputs at which the theorems below are evaluated: an environment with both
  keys stored, in which every request is rejected and \<^verbatim>\<open>JSON.parse\<close> throws (the
  examples replace single fields), two caption tracks and one comment.
\<close>

definition base_env :: env where
  "base_env =
     \<lparr>storage_get = Inr (Some (JStr ''youtube-key''), Some (JStr ''gemini-key'')),
      executeScript = Inr (Some (JStr ''abc123'')),
      JSON_parse = (\<lambda>v. Inl ''Unexpected end of JSON input''),
      match_player_response = (\<lambda>html. None),
      lower_unicode = (\<lambda>s. s),
      fetch_watch_page = Rejected ''Failed to fetch'',
      fetch_timed_text = (\<lambda>url. Rejected ''Failed to fetch''),
      fetch_captions = Rejected ''Failed to fetch'',
      fetch_comments = (\<lambda>page. Rejected ''Failed to fetch''),
      fetch_gemini_flash = (\<lambda>i. Rejected ''Failed to fetch''),
      fetch_gemini_pro = Rejected ''Failed to fetch''\<rparr>"

definition ta_auto :: track where
  "ta_auto = \<lparr>languageCode = Some (JStr ''ta''), kind = Some (JStr ''asr''),
              baseUrl = Some (JStr ''https://example.org/ta-asr'')\<rparr>"

definition en_human :: track where
  "en_human = \<lparr>languageCode = Some (JStr ''en''), kind = None,
               baseUrl = Some (JStr ''https://example.org/en'')\<rparr>"

definition en_auto :: track where
  "en_auto = \<lparr>languageCode = Some (JStr ''en''), kind = Some (JStr ''asr''),
              baseUrl = Some (JStr ''https://example.org/en-asr'')\<rparr>"

definition comment1 :: comment where
  "comment1 = \<lparr>comment_id = Some (JStr ''1''), comment_text = JStr ''great''\<rparr>"

definition server_error :: response where
  "server_error = \<lparr>ok = False, status = 500, statusText = ''Internal Server Error'', body = []\<rparr>"

definition ok_response :: "string \<Rightarrow> response" where
  "ok_response b = \<lparr>ok = True, status = 200, statusText = ''OK'', body = b\<rparr>"

text \<open>
  \<^verbatim>\<open>JSON.parse\<close> given by a table from texts to their values: it throws on every
  other text. A response body is named by a short text, which stands for the JSON
  document the table gives for it.
\<close>

definition parse_table :: "(json \<times> json) list \<Rightarrow> json \<Rightarrow> string + json" where
  "parse_table tbl v =
     (case map_of tbl v of None \<Rightarrow> Inl ''Unexpected token'' | Some j \<Rightarrow> Inr j)"

text \<open>The classifier's answer \<^verbatim>\<open>{"candidates":[{"content":{"parts":[{"text": t}]}}]}\<close>,
  and a page of the comments API with the one comment above.\<close>

definition gemini_reply :: "string \<Rightarrow> json" where
  "gemini_reply t =
     JObj [(''candidates'',
            JArr [JObj [(''content'', JObj [(''parts'', JArr [JObj [(''text'', JStr t)]])])]])]"

definition one_comment_page :: json where
  "one_comment_page =
     JObj [(''items'', JArr [JObj [(''id'', JStr ''1''),
        (''snippet'', JObj [(''topLevelComment'',
           JObj [(''snippet'', JObj [(''textOriginal'', JStr ''great'')])])])]])]"

definition two_comments_page :: json where
  "two_comments_page =
     JObj [(''items'', JArr [
        JObj [(''id'', JStr ''1''),
          (''snippet'', JObj [(''topLevelComment'',
             JObj [(''snippet'', JObj [(''textOriginal'', JStr ''great'')])])])],
        JObj [(''id'', JStr ''2''),
          (''snippet'', JObj [(''topLevelComment'',
             JObj [(''snippet'', JObj [(''textOriginal'', JStr ''bad'')])])])]])]"

section \<open>The invariant of the tally\<close>

text \<open>
  The keys of \<^verbatim>\<open>sentimentCounts\<close> that are defined without being one of the three
  counters, and what holds of the analyzed sample and the counts throughout the batch
  loop: every entry is counted in one of the three counters or has such a key as its
  sentiment.
\<close>

definition inherited_key :: "string \<Rightarrow> bool" where
  "inherited_key s = (s = ''constructor'' \<or> s = ''__proto__'')"

definition tally_ok :: "tally \<Rightarrow> bool" where
  "tally_ok st =
     (length (fst st) =
        positive (snd st) + negative (snd st) + neutral (snd st)
        + length (filter (\<lambda>p. inherited_key (snd p)) (fst st)))"

section \<open>Track selection\<close>

lemma select_loop_skip:
  "\<forall>l\<in>set pre. find_human tracks l = None
      \<and> (\<forall>a. find_asr tracks l = Some a \<longrightarrow> \<not> truthy (baseUrl a)) \<Longrightarrow>
   \<not> truthy (fst st) \<Longrightarrow>
   \<exists>st'. \<not> truthy (fst st') \<and> (\<forall>rest. select_loop tracks (pre @ rest) st = select_loop tracks rest st')"
proof (induction pre arbitrary: st)
  case Nil
  then show ?case by (intro exI [of _ st]) simp
next
  case (Cons l pre)
  obtain b f where st: "st = (b, f)" by (cases st)
  from Cons.prems have nh: "find_human tracks l = None" by simp
  from Cons.prems have pre: "\<forall>l\<in>set pre. find_human tracks l = None
      \<and> (\<forall>a. find_asr tracks l = Some a \<longrightarrow> \<not> truthy (baseUrl a))" by simp
  from Cons.prems st have fb: "\<not> truthy b" by simp
  show ?case
  proof (cases "find_asr tracks l")
    case None
    from Cons.IH [OF pre Cons.prems(2)] obtain st' where
      "\<not> truthy (fst st')" "\<forall>rest. select_loop tracks (pre @ rest) st = select_loop tracks rest st'"
      by blast
    then show ?thesis using nh None st by (intro exI [of _ st']) simp
  next
    case (Some a)
    with Cons.prems have fa: "\<not> truthy (baseUrl a)" by simp
    then have "\<not> truthy (fst (baseUrl a, Some (l @ '' (auto)'')))" by simp
    from Cons.IH [OF pre this] obtain st' where
      "\<not> truthy (fst st')"
      "\<forall>rest. select_loop tracks (pre @ rest) (baseUrl a, Some (l @ '' (auto)'')) = select_loop tracks rest st'"
      by blast
    then show ?thesis using nh Some st fb by (intro exI [of _ st']) simp
  qed
qed

lemma select_loop_keep:
  "truthy best \<Longrightarrow> \<forall>l\<in>set post. find_human tracks l = None \<Longrightarrow>
   select_loop tracks post (best, found) = (best, found)"
  by (induction post) (auto split: option.splits)

lemma select_loop_human:
  "truthy best \<Longrightarrow> \<forall>x\<in>set p1. find_human tracks x = None \<Longrightarrow> find_human tracks l = Some t \<Longrightarrow>
   select_loop tracks (p1 @ l # p2) (best, found) = (baseUrl t, Some l)"
  by (induction p1) (auto split: option.splits)

lemma find_asr_nonempty: "find_asr tracks lang = Some a \<Longrightarrow> tracks \<noteq> []"
  by (auto simp: find_asr_def)

text \<open>
  C1, as the claim states it, fails: with an auto-generated Tamil track, a human-authored
  English track and the preferences Tamil, English, the loop selects the Tamil track at
  the first preference, and the function returns the English one.
\<close>

theorem later_human_track_replaces_auto_track:
  "select_loop [ta_auto, en_human] [''ta''] (Some JNull, None)
     = (Some (JStr ''https://example.org/ta-asr''), Some ''ta (auto)'')
   \<and> select_track [ta_auto, en_human] [''ta'', ''en'']
     = (Some (JStr ''https://example.org/en''), Some ''en'')"
  by (simp add: select_track_def find_human_def find_asr_def ta_auto_def en_human_def)

text \<open>
  C1, amended: once an auto-generated track (with a truthy URL) has been selected for an
  earlier-preferred language (no language before it has a human-authored track or an
  auto-generated one with a truthy URL), it is returned when no later-preferred language
  has a human-authored track (an auto-generated track of a later language does not
  replace it); the human-authored track of the first later-preferred language that has
  one (with a truthy URL) replaces it.
\<close>

theorem select_track_auto_then_later_human:
  assumes none_before: "\<forall>l\<in>set pre. find_human tracks l = None
                          \<and> (\<forall>a. find_asr tracks l = Some a \<longrightarrow> \<not> truthy (baseUrl a))"
      and no_human: "find_human tracks lang = None"
      and asr: "find_asr tracks lang = Some a"
      and url: "truthy (baseUrl a)"
  shows "((\<forall>l\<in>set post. find_human tracks l = None) \<longrightarrow>
            select_track tracks (pre @ lang # post) = (baseUrl a, Some (lang @ '' (auto)'')))
       \<and> ((\<forall>x\<in>set p1. find_human tracks x = None) \<and> find_human tracks l = Some t
              \<and> truthy (baseUrl t) \<longrightarrow>
            select_track tracks (pre @ lang # p1 @ l # p2) = (baseUrl t, Some l))"
proof -
  obtain st' where falsy: "\<not> truthy (fst st')"
    and skip: "\<And>rest. select_loop tracks (pre @ rest) (Some JNull, None) = select_loop tracks rest st'"
    using select_loop_skip [OF none_before, of "(Some JNull, None)"] by auto
  have step: "select_loop tracks (pre @ lang # rest) (Some JNull, None)
              = select_loop tracks rest (baseUrl a, Some (lang @ '' (auto)''))" for rest
    using skip [of "lang # rest"] falsy no_human asr by (cases st') simp
  obtain t0 ts where ne: "tracks = t0 # ts"
    using find_asr_nonempty [OF asr] by (cases tracks) auto
  show ?thesis
  proof (intro conjI impI)
    assume "\<forall>l\<in>set post. find_human tracks l = None"
    then have "select_loop tracks (pre @ lang # post) (Some JNull, None)
               = (baseUrl a, Some (lang @ '' (auto)''))"
      using step url by (simp add: select_loop_keep)
    then show "select_track tracks (pre @ lang # post) = (baseUrl a, Some (lang @ '' (auto)''))"
      using url ne by (simp add: select_track_def)
  next
    assume h: "(\<forall>x\<in>set p1. find_human tracks x = None) \<and> find_human tracks l = Some t
               \<and> truthy (baseUrl t)"
    then have "select_loop tracks (pre @ lang # p1 @ l # p2) (Some JNull, None)
               = (baseUrl t, Some l)"
      using step url by (simp add: select_loop_human)
    then show "select_track tracks (pre @ lang # p1 @ l # p2) = (baseUrl t, Some l)"
      using h ne by (simp add: select_track_def)
  qed
qed

theorem select_track_auto_then_later_human_witness:
  "select_track [ta_auto, en_human] [''hi'', ''ta'', ''fr'']
     = (Some (JStr ''https://example.org/ta-asr''), Some ''ta (auto)'')
   \<and> select_track [ta_auto, en_human] [''hi'', ''ta'', ''fr'', ''en'']
     = (Some (JStr ''https://example.org/en''), Some ''en'')"
proof -
  have h1: "\<forall>l\<in>set [''hi'']. find_human [ta_auto, en_human] l = None
              \<and> (\<forall>a. find_asr [ta_auto, en_human] l = Some a \<longrightarrow> \<not> truthy (baseUrl a))"
    by (simp add: find_human_def find_asr_def ta_auto_def en_human_def)
  have h2: "find_human [ta_auto, en_human] ''ta'' = None"
    by (simp add: find_human_def ta_auto_def en_human_def)
  have h3: "find_asr [ta_auto, en_human] ''ta'' = Some ta_auto"
    by (simp add: find_asr_def ta_auto_def en_human_def)
  have h4: "truthy (baseUrl ta_auto)"
    by (simp add: ta_auto_def)
  have h5: "find_human [ta_auto, en_human] ''fr'' = None"
    by (simp add: find_human_def ta_auto_def en_human_def)
  have h6: "find_human [ta_auto, en_human] ''en'' = Some en_human"
    by (simp add: find_human_def ta_auto_def en_human_def)
  show ?thesis
    using select_track_auto_then_later_human [OF h1 h2 h3 h4, of "[''fr'']" "[''fr'']" "''en''" en_human "[]"]
      h5 h6
    by (simp add: ta_auto_def en_human_def)
qed

section \<open>Text extraction\<close>

lemma decode_entities_same: "decode_entities t = t"
  by (induction t) (auto simp: decode_entities_def replace_all_def)

text \<open>
  C5: the five replacements of the source replace each of the characters \<^verbatim>\<open>& < > " '\<close>
  by itself, so no entity is decoded: the entry \<^verbatim>\<open><text>a &amp; b</text>\<close> gives the
  line \<^verbatim>\<open>a &amp; b\<close>, where the claim (and the source's comment, "Decode HTML
  entities") has \<^verbatim>\<open>a & b\<close>.
\<close>

theorem entities_are_not_decoded:
  "decode_entities ''a &amp; b'' = ''a &amp; b''
   \<and> extract_transcript ''<text>a &amp; b</text>'' = Inr ''a &amp; b''"
  by code_simp

section \<open>Comment analysis: batches\<close>

text \<open>
  C6: a batch whose classifier call answers with a non-success status leaves the analyzed
  sample and the three counts as they were; the loop goes on to the next batch with them,
  after the one request of that batch.
\<close>

theorem failed_batch_is_skipped:
  assumes "fetch_gemini_flash e i = Response r" and "\<not> ok r"
  shows "process_batch e i batch st = Inr st
       \<and> analyze_batches e i (batch # rest) st =
           (Fetch (GeminiFlash i) # fst (analyze_batches e (Suc i) rest st),
            snd (analyze_batches e (Suc i) rest st))"
  using assms by (simp add: process_batch_def split: prod.splits)

theorem failed_batch_is_skipped_witness:
  "process_batch (base_env\<lparr>fetch_gemini_flash := \<lambda>i. Response server_error\<rparr>) 0
     [comment1] ([], zero_counts)
   = Inr ([], zero_counts)
   \<and> analyze_batches (base_env\<lparr>fetch_gemini_flash := \<lambda>i. Response server_error\<rparr>) 0
     [[comment1]] ([], zero_counts)
   = ([Fetch (GeminiFlash 0)], Inr ([], zero_counts))"
  using failed_batch_is_skipped
    [of "base_env\<lparr>fetch_gemini_flash := \<lambda>i. Response server_error\<rparr>" 0 server_error
        "[comment1]" "([], zero_counts)" "[]"]
  by (simp add: server_error_def)

text \<open>
  C2, as the claim states it, fails: when the call succeeds and the response text is
  \<^verbatim>\<open>{}\<close> (valid JSON that is not an array), the source only logs a warning: no
  comment of the batch is labelled and no count moves.
\<close>

theorem non_array_response_labels_nothing:
  "process_batch
     (base_env\<lparr>fetch_gemini_flash := \<lambda>i. Response (ok_response ''reply''),
               JSON_parse := parse_table [(JStr ''reply'', gemini_reply ''{}''), (JStr ''{}'', JObj [])]\<rparr>)
     0 [comment1] ([], zero_counts)
   = Inr ([], zero_counts)"
  by (simp add: process_batch_def response_json_def ok_response_def parse_table_def gemini_reply_def
      classify_batch_def gemini_text_def gemini_content_def)

text \<open>
  C2, amended: for a batch whose classifier call succeeds, when \<^verbatim>\<open>JSON.parse\<close> throws
  on the response text (the text is not valid JSON, or is missing), every comment of the
  batch is labelled "neutral", the neutral count grows by the batch size, the other two
  counts stay and the analyzed total advances by the batch size; when the text parses to
  a value that is not an array, the batch contributes nothing.
\<close>

theorem unparsable_response_labels_batch_neutral:
  assumes "fetch_gemini_flash e i = Response r" and "ok r"
      and "response_json e r = Inr geminiResult"
  shows "(JSON_parse e (or_default (gemini_text geminiResult) (JStr [])) = Inl m \<longrightarrow>
            (\<exists>st'. process_batch e i batch st = Inr st'
               \<and> fst st' = fst st @ map (\<lambda>c. (c, ''neutral'')) batch
               \<and> length (fst st') = length (fst st) + length batch
               \<and> neutral (snd st') = neutral (snd st) + length batch
               \<and> positive (snd st') = positive (snd st)
               \<and> negative (snd st') = negative (snd st)))
       \<and> (JSON_parse e (or_default (gemini_text geminiResult) (JStr [])) = Inr v
            \<and> (\<forall>xs. v \<noteq> JArr xs) \<longrightarrow> process_batch e i batch st = Inr st)"
  using assms
  by (auto simp: process_batch_def classify_batch_def label_neutral_def split: json.splits)

theorem unparsable_response_witness:
  "process_batch
     (base_env\<lparr>fetch_gemini_flash := \<lambda>i. Response (ok_response ''reply''),
               JSON_parse := parse_table [(JStr ''reply'', gemini_reply ''Sure! Here it is'')]\<rparr>)
     0 [comment1] ([], zero_counts)
   = Inr ([(comment1, ''neutral'')], \<lparr>positive = 0, negative = 0, neutral = 1\<rparr>)"
proof -
  let ?e = "base_env\<lparr>fetch_gemini_flash := \<lambda>i. Response (ok_response ''reply''),
               JSON_parse := parse_table [(JStr ''reply'', gemini_reply ''Sure! Here it is'')]\<rparr>"
  have h1: "fetch_gemini_flash ?e 0 = Response (ok_response ''reply'')" by simp
  have h2: "ok (ok_response ''reply'')" by (simp add: ok_response_def)
  have h3: "response_json ?e (ok_response ''reply'') = Inr (gemini_reply ''Sure! Here it is'')"
    by (simp add: response_json_def ok_response_def parse_table_def)
  have h4: "JSON_parse ?e (or_default (gemini_text (gemini_reply ''Sure! Here it is'')) (JStr []))
            = Inl ''Unexpected token''"
    by (simp add: gemini_text_def gemini_content_def gemini_reply_def parse_table_def)
  show ?thesis
    using unparsable_response_labels_batch_neutral
      [OF h1 h2 h3, of "''Unexpected token''" "[comment1]" "([], zero_counts)"] h4
    by (auto simp: zero_counts_def)
qed

text \<open>
  C10: a sentiment that \<^verbatim>\<open>toLowerCase\<close> turns into \<^verbatim>\<open>constructor\<close> is a key
  the counts object inherits, so the test \<^verbatim>\<open>sentimentCounts[sentiment] !== undefined\<close>
  holds and the increment misses the three counters: the entry is in the sample
  (totalAnalyzed = 1) and the three counts are 0, where the source's comment says
  "Default to neutral if classification is unexpected".
\<close>

theorem inherited_key_is_not_counted:
  "map_option snd (fetchAndAnalyzeComments 1
     (base_env\<lparr>fetch_comments := \<lambda>page. Response (ok_response ''comments''),
               fetch_gemini_flash := \<lambda>i. Response (ok_response ''reply''),
               JSON_parse := parse_table [(JStr ''comments'', one_comment_page),
                  (JStr ''reply'', gemini_reply ''sentiments''),
                  (JStr ''sentiments'',
                   JArr [JObj [(''id'', JStr ''1''), (''sentiment'', JStr ''Constructor'')]])]\<rparr>)
     (JStr ''abc123'') 50)
   = Some (Inr (Some \<lparr>totalFetched = 1, totalAnalyzed = 1,
        sentiment = \<lparr>positive = 0, negative = 0, neutral = 0\<rparr>,
        sampleAnalyzedComments = [(comment1, ''constructor'')]\<rparr>))"
  by code_simp

section \<open>Comment analysis: no comments\<close>

lemma fetch_pages_count:
  "fetch_pages fuel e m p cs n = Some (effs, Inr (cs', n')) \<Longrightarrow> n' + length cs = n + length cs'"
proof (induction fuel arbitrary: p cs n effs)
  case 0
  then show ?case by simp
next
  case (Suc fuel)
  then show ?case
    by (fastforce simp: Let_def split: fetched.splits sum.splits if_splits option.splits prod.splits)
qed

text \<open>
  C9: for a video whose one page of comments has no items, the analyzer ends without an
  error and sends the result with totalFetched = 0, totalAnalyzed = 0 and the three
  counts 0 to the popup, but it returns nothing (\<^verbatim>\<open>return;\<close> at line 252), where
  the claim has it return that record, as the other path that succeeds does
  (\<^verbatim>\<open>return results;\<close> at line 321).
\<close>

theorem zero_comments_returns_no_record:
  "fetchAndAnalyzeComments 1
     (base_env\<lparr>fetch_comments := \<lambda>page. Response (ok_response ''comments''),
               JSON_parse := parse_table [(JStr ''comments'', JObj [])]\<rparr>) (JStr ''abc123'') 50
   = Some ([updatePopupStatus ''Fetching comments for video: abc123...'' False (Some True),
            updatePopupStatus ''Fetching comment page (fetched 0/50)...'' False None,
            Fetch (CommentThreads 0),
            sendDataToPopup ''displayCommentAnalysis''
              (Some (PAnalysis \<lparr>totalFetched = 0, totalAnalyzed = 0,
                 sentiment = \<lparr>positive = 0, negative = 0, neutral = 0\<rparr>,
                 sampleAnalyzedComments = []\<rparr>)) None,
            updatePopupStatus ''No comments found or fetched.'' False (Some False)],
           Inr None)"
  by code_simp

text \<open>
  X3: with both keys loaded, when the pagination ends (within the fuel) with no comment,
  the analyzer ends without an error: it sends one displayCommentAnalysis result with
  totalFetched = 0, totalAnalyzed = 0 and the three counts 0, then the status "No
  comments found or fetched.", and returns no value.
\<close>

theorem no_comments_is_a_zero_result:
  assumes "truthy (fst (loadAPIKeys e))" and "truthy (snd (loadAPIKeys e))"
      and "fetch_pages fuel e maxResults 0 [] 0 = Some (effs, Inr ([], fetchedCount))"
  shows "fetchAndAnalyzeComments fuel e videoId maxResults =
           Some (updatePopupStatus (''Fetching comments for video: '' @ js_string videoId @ ''...'')
                   False (Some True) # effs @
                 [sendDataToPopup ''displayCommentAnalysis''
                    (Some (PAnalysis \<lparr>totalFetched = 0, totalAnalyzed = 0,
                       sentiment = \<lparr>positive = 0, negative = 0, neutral = 0\<rparr>,
                       sampleAnalyzedComments = []\<rparr>)) None,
                  updatePopupStatus ''No comments found or fetched.'' False (Some False)],
                 Inr None)
       \<and> fetchedCount = 0"
  using assms fetch_pages_count [OF assms(3)]
  by (simp add: fetchAndAnalyzeComments_def zero_counts_def)

theorem no_comments_witness:
  "map_option snd (fetchAndAnalyzeComments 1
     (base_env\<lparr>fetch_comments := \<lambda>page. Response (ok_response ''comments''),
               JSON_parse := parse_table [(JStr ''comments'', JObj [])]\<rparr>) (JStr ''abc123'') 50)
   = Some (Inr None)
   \<and> map_option (\<lambda>r. terminal_events (fst r)) (fetchAndAnalyzeComments 1
     (base_env\<lparr>fetch_comments := \<lambda>page. Response (ok_response ''comments''),
               JSON_parse := parse_table [(JStr ''comments'', JObj [])]\<rparr>) (JStr ''abc123'') 50)
   = Some [sendDataToPopup ''displayCommentAnalysis''
                    (Some (PAnalysis \<lparr>totalFetched = 0, totalAnalyzed = 0,
                       sentiment = \<lparr>positive = 0, negative = 0, neutral = 0\<rparr>,
                       sampleAnalyzedComments = []\<rparr>)) None]"
proof -
  let ?e = "base_env\<lparr>fetch_comments := \<lambda>page. Response (ok_response ''comments''),
               JSON_parse := parse_table [(JStr ''comments'', JObj [])]\<rparr>"
  have h1: "truthy (fst (loadAPIKeys ?e))" by (simp add: loadAPIKeys_def base_env_def)
  have h2: "truthy (snd (loadAPIKeys ?e))" by (simp add: loadAPIKeys_def base_env_def)
  have h3: "fetch_pages 1 ?e 50 0 [] 0 =
     Some ([updatePopupStatus (''Fetching comment page (fetched '' @ show_nat 0 @
                    ''/'' @ show_nat 50 @ '')...'') False None,
                  Fetch (CommentThreads 0)], Inr ([], 0))"
    by (simp add: response_json_def ok_response_def parse_table_def page_comments_def)
  show ?thesis
    using no_comments_is_a_zero_result [OF h1 h2 h3, of "JStr ''abc123''"]
    by (simp add: terminal_events_def updatePopupStatus_def sendDataToPopup_def)
qed

section \<open>Missing key\<close>

text \<open>
  C7: when the loaded generative-language key is absent (null), the fact checker and the
  comment analyzer fail with a "key not set" error after their first status message and
  before any request: the fact checker with the Gemini one, the analyzer with the Gemini
  one when the YouTube key is there and with the YouTube one when that is absent too.
\<close>

theorem missing_gemini_key_fails_before_any_request:
  assumes "\<not> truthy (snd (loadAPIKeys e))"
  shows "performFactCheck e textToFactCheck =
           ([updatePopupStatus ''Fact-checking selected text...'' False (Some True)],
            Inl (Error ''Gemini API Key not set in options.''))
       \<and> fetchAndAnalyzeComments fuel e videoId maxResults =
           Some ([updatePopupStatus (''Fetching comments for video: '' @ js_string videoId @ ''...'')
                    False (Some True)],
                 Inl (Error (if truthy (fst (loadAPIKeys e))
                             then ''Gemini API Key not set in options.''
                             else ''YouTube API Key not set in options.'')))"
  using assms by (simp add: performFactCheck_def fetchAndAnalyzeComments_def)

theorem missing_gemini_key_witness:
  "performFactCheck (base_env\<lparr>storage_get := Inr (Some (JStr ''youtube-key''), None)\<rparr>)
     (JStr ''claim'') =
           ([updatePopupStatus ''Fact-checking selected text...'' False (Some True)],
            Inl (Error ''Gemini API Key not set in options.''))
   \<and> fetchAndAnalyzeComments 0 (base_env\<lparr>storage_get := Inr (Some (JStr ''youtube-key''), None)\<rparr>)
        (JStr ''abc123'') 50 =
           Some ([updatePopupStatus ''Fetching comments for video: abc123...'' False (Some True)],
                 Inl (Error ''Gemini API Key not set in options.''))"
  using missing_gemini_key_fails_before_any_request
    [of "base_env\<lparr>storage_get := Inr (Some (JStr ''youtube-key''), None)\<rparr>" "JStr ''claim''" 0
        "JStr ''abc123''" 50]
  by (simp add: loadAPIKeys_def base_env_def)

section \<open>Fact check: the formatted result\<close>

text \<open>
  C8: for a parsed result that is not null, the formatted result has verdict "Unknown"
  when the verdict is missing, confidence null when the confidence is missing and the
  confidence itself when it is there (0 stays 0), the placeholder when the explanation
  is missing, and no sources when the sources are missing or not an array.
\<close>

theorem format_result_defaults:
  assumes "parsedResult \<noteq> JNull"
  shows "\<exists>res. format_result parsedResult = Inr res
       \<and> (get_prop parsedResult ''verdict'' = None \<longrightarrow> verdict res = JStr ''Unknown'')
       \<and> (get_prop parsedResult ''confidence'' = None \<longrightarrow> confidence res = JNull)
       \<and> (\<forall>c. get_prop parsedResult ''confidence'' = Some c \<longrightarrow> confidence res = c)
       \<and> (get_prop parsedResult ''explanation'' = None \<longrightarrow>
            explanation res = JStr ''No explanation provided.'')
       \<and> ((\<forall>xs. get_prop parsedResult ''sources'' \<noteq> Some (JArr xs)) \<longrightarrow> sources res = [])"
  using assms by (auto simp: format_result_def split: option.splits json.splits)

theorem format_result_defaults_witness:
  "format_result (JObj [(''confidence'', JNum ''0''), (''sources'', JStr ''none'')]) =
     Inr \<lparr>verdict = JStr ''Unknown'', confidence = JNum ''0'',
          explanation = JStr ''No explanation provided.'', sources = []\<rparr>"
  using format_result_defaults [of "JObj [(''confidence'', JNum ''0''), (''sources'', JStr ''none'')]"]
  by (simp add: format_result_def)

section \<open>Fact check: a response that cannot be parsed\<close>

text \<open>
  C3, as the claim states it, fails: when the text of the classifier's answer is not
  JSON, the fact checker sends an error result and throws the error to its caller; it
  returns no result record.
\<close>

theorem unparsable_fact_response_is_thrown:
  "performFactCheck
     (base_env\<lparr>fetch_gemini_pro := Response (ok_response ''reply''),
               JSON_parse := parse_table [(JStr ''reply'', gemini_reply ''not json'')]\<rparr>)
     (JStr ''claim'')
   = ([updatePopupStatus ''Fact-checking selected text...'' False (Some True),
       Fetch GeminiPro,
       sendDataToPopup ''displayFactCheck'' None
         (Some ''Fact-check failed: Fact-check response from Gemini was not valid JSON.''),
       updatePopupStatus ''Fact-check failed: Fact-check response from Gemini was not valid JSON.''
         True (Some False)],
      Inl (Error ''Fact-check response from Gemini was not valid JSON.''))"
  by (simp add: performFactCheck_def fact_check_request_def loadAPIKeys_def base_env_def
      response_json_def ok_response_def parse_table_def gemini_reply_def parse_fact_response_def
      gemini_text_def gemini_content_def)

text \<open>
  C3, amended: for a successful classifier call (key loaded, status ok, body JSON), the
  fact checker sends one displayFactCheck message with the error "Fact-check failed: ..."
  and an error status, and throws the error to its caller, returning no record, in three
  cases: the answer has a truthy text and \<^verbatim>\<open>JSON.parse\<close> throws on it ("... was not
  valid JSON."); it has no truthy text and its content is not of type object ("Could not
  find parsable content ..."); the parsed result (the parsed text, or the content when
  there is no truthy text) is null (a TypeError). The record with verdict "Unknown",
  confidence null, the placeholder explanation and no sources is what it sends and
  returns when the parsed result is not null and has none of the four fields.
\<close>

theorem unparsable_fact_response_is_reported_and_rethrown:
  assumes "truthy (snd (loadAPIKeys e))"
      and "fetch_gemini_pro e = Response r" and "ok r"
      and "response_json e r = Inr geminiResult"
  shows "(gemini_text geminiResult = Some txt \<and> truthy_json txt \<and> JSON_parse e txt = Inl m \<longrightarrow>
            performFactCheck e textToFactCheck =
              ([updatePopupStatus ''Fact-checking selected text...'' False (Some True),
                Fetch GeminiPro,
                sendDataToPopup ''displayFactCheck'' None
                  (Some ''Fact-check failed: Fact-check response from Gemini was not valid JSON.''),
                updatePopupStatus
                  ''Fact-check failed: Fact-check response from Gemini was not valid JSON.''
                  True (Some False)],
               Inl (Error ''Fact-check response from Gemini was not valid JSON.'')))
       \<and> (\<not> truthy (gemini_text geminiResult) \<and> \<not> typeof_object (gemini_content geminiResult) \<longrightarrow>
            performFactCheck e textToFactCheck =
              ([updatePopupStatus ''Fact-checking selected text...'' False (Some True),
                Fetch GeminiPro,
                sendDataToPopup ''displayFactCheck'' None
                  (Some ''Fact-check failed: Could not find parsable content in Gemini fact-check response.''),
                updatePopupStatus
                  ''Fact-check failed: Could not find parsable content in Gemini fact-check response.''
                  True (Some False)],
               Inl (Error ''Could not find parsable content in Gemini fact-check response.'')))
       \<and> ((gemini_text geminiResult = Some txt \<and> truthy_json txt \<and> JSON_parse e txt = Inr JNull)
            \<or> (\<not> truthy (gemini_text geminiResult) \<and> gemini_content geminiResult = Some JNull) \<longrightarrow>
            (\<exists>msg. performFactCheck e textToFactCheck =
              ([updatePopupStatus ''Fact-checking selected text...'' False (Some True),
                Fetch GeminiPro,
                sendDataToPopup ''displayFactCheck'' None (Some (''Fact-check failed: '' @ msg)),
                updatePopupStatus (''Fact-check failed: '' @ msg) True (Some False)],
               Inl (TypeError msg))))
       \<and> (((gemini_text geminiResult = Some txt \<and> truthy_json txt
              \<and> JSON_parse e txt = Inr parsedResult)
             \<or> (\<not> truthy (gemini_text geminiResult)
                 \<and> gemini_content geminiResult = Some parsedResult
                 \<and> typeof_object (Some parsedResult)))
            \<and> parsedResult \<noteq> JNull
            \<and> get_prop parsedResult ''verdict'' = None
            \<and> get_prop parsedResult ''confidence'' = None
            \<and> get_prop parsedResult ''explanation'' = None
            \<and> get_prop parsedResult ''sources'' = None \<longrightarrow>
            performFactCheck e textToFactCheck =
                ([updatePopupStatus ''Fact-checking selected text...'' False (Some True),
                  Fetch GeminiPro,
                  sendDataToPopup ''displayFactCheck''
                    (Some (PFact \<lparr>verdict = JStr ''Unknown'', confidence = JNull,
                       explanation = JStr ''No explanation provided.'', sources = []\<rparr>)) None,
                  updatePopupStatus ''Fact-check complete.'' False (Some False)],
                 Inr \<lparr>verdict = JStr ''Unknown'', confidence = JNull,
                       explanation = JStr ''No explanation provided.'', sources = []\<rparr>))"
proof (intro conjI impI)
  assume a: "gemini_text geminiResult = Some txt \<and> truthy_json txt \<and> JSON_parse e txt = Inl m"
  then have "parse_fact_response e geminiResult
             = Inl (Error ''Fact-check response from Gemini was not valid JSON.'')"
    by (simp add: parse_fact_response_def)
  then show "performFactCheck e textToFactCheck =
              ([updatePopupStatus ''Fact-checking selected text...'' False (Some True),
                Fetch GeminiPro,
                sendDataToPopup ''displayFactCheck'' None
                  (Some ''Fact-check failed: Fact-check response from Gemini was not valid JSON.''),
                updatePopupStatus
                  ''Fact-check failed: Fact-check response from Gemini was not valid JSON.''
                  True (Some False)],
               Inl (Error ''Fact-check response from Gemini was not valid JSON.''))"
    using assms by (simp add: performFactCheck_def fact_check_request_def)
next
  assume a: "\<not> truthy (gemini_text geminiResult) \<and> \<not> typeof_object (gemini_content geminiResult)"
  then have "parse_fact_response e geminiResult
             = Inl (Error ''Could not find parsable content in Gemini fact-check response.'')"
    by (simp add: parse_fact_response_def)
  then show "performFactCheck e textToFactCheck =
              ([updatePopupStatus ''Fact-checking selected text...'' False (Some True),
                Fetch GeminiPro,
                sendDataToPopup ''displayFactCheck'' None
                  (Some ''Fact-check failed: Could not find parsable content in Gemini fact-check response.''),
                updatePopupStatus
                  ''Fact-check failed: Could not find parsable content in Gemini fact-check response.''
                  True (Some False)],
               Inl (Error ''Could not find parsable content in Gemini fact-check response.''))"
    using assms by (simp add: performFactCheck_def fact_check_request_def)
next
  assume a: "(gemini_text geminiResult = Some txt \<and> truthy_json txt \<and> JSON_parse e txt = Inr JNull)
            \<or> (\<not> truthy (gemini_text geminiResult) \<and> gemini_content geminiResult = Some JNull)"
  then have "parse_fact_response e geminiResult = Inr JNull"
    by (auto simp: parse_fact_response_def)
  then have "performFactCheck e textToFactCheck =
              ([updatePopupStatus ''Fact-checking selected text...'' False (Some True),
                Fetch GeminiPro,
                sendDataToPopup ''displayFactCheck'' None
                  (Some (''Fact-check failed: '' @ ''parsedResult is null'')),
                updatePopupStatus (''Fact-check failed: '' @ ''parsedResult is null'') True (Some False)],
               Inl (TypeError ''parsedResult is null''))"
    using assms by (simp add: performFactCheck_def fact_check_request_def format_result_def)
  then show "\<exists>msg. performFactCheck e textToFactCheck =
              ([updatePopupStatus ''Fact-checking selected text...'' False (Some True),
                Fetch GeminiPro,
                sendDataToPopup ''displayFactCheck'' None (Some (''Fact-check failed: '' @ msg)),
                updatePopupStatus (''Fact-check failed: '' @ msg) True (Some False)],
               Inl (TypeError msg))"
    by blast
next
  assume a: "((gemini_text geminiResult = Some txt \<and> truthy_json txt
              \<and> JSON_parse e txt = Inr parsedResult)
             \<or> (\<not> truthy (gemini_text geminiResult)
                 \<and> gemini_content geminiResult = Some parsedResult
                 \<and> typeof_object (Some parsedResult)))
            \<and> parsedResult \<noteq> JNull
            \<and> get_prop parsedResult ''verdict'' = None
            \<and> get_prop parsedResult ''confidence'' = None
            \<and> get_prop parsedResult ''explanation'' = None
            \<and> get_prop parsedResult ''sources'' = None"
  then have p: "parse_fact_response e geminiResult = Inr parsedResult"
    by (auto simp: parse_fact_response_def)
  from a have "format_result parsedResult = Inr \<lparr>verdict = JStr ''Unknown'', confidence = JNull,
                       explanation = JStr ''No explanation provided.'', sources = []\<rparr>"
    by (simp add: format_result_def)
  then show "performFactCheck e textToFactCheck =
                ([updatePopupStatus ''Fact-checking selected text...'' False (Some True),
                  Fetch GeminiPro,
                  sendDataToPopup ''displayFactCheck''
                    (Some (PFact \<lparr>verdict = JStr ''Unknown'', confidence = JNull,
                       explanation = JStr ''No explanation provided.'', sources = []\<rparr>)) None,
                  updatePopupStatus ''Fact-check complete.'' False (Some False)],
                 Inr \<lparr>verdict = JStr ''Unknown'', confidence = JNull,
                       explanation = JStr ''No explanation provided.'', sources = []\<rparr>)"
    using assms p by (simp add: performFactCheck_def fact_check_request_def)
qed

theorem unparsable_fact_response_witness:
  "snd (performFactCheck
     (base_env\<lparr>fetch_gemini_pro := Response (ok_response ''reply''),
               JSON_parse := parse_table [(JStr ''reply'', gemini_reply ''oops'')]\<rparr>)
     (JStr ''claim''))
   = Inl (Error ''Fact-check response from Gemini was not valid JSON.'')
   \<and> snd (performFactCheck
     (base_env\<lparr>fetch_gemini_pro := Response (ok_response ''reply''),
               JSON_parse := parse_table [(JStr ''reply'', JObj [])]\<rparr>)
     (JStr ''claim''))
   = Inl (Error ''Could not find parsable content in Gemini fact-check response.'')
   \<and> (\<exists>msg. snd (performFactCheck
     (base_env\<lparr>fetch_gemini_pro := Response (ok_response ''reply''),
               JSON_parse := parse_table [(JStr ''reply'', gemini_reply ''null''), (JStr ''null'', JNull)]\<rparr>)
     (JStr ''claim''))
   = Inl (TypeError msg))
   \<and> snd (performFactCheck
     (base_env\<lparr>fetch_gemini_pro := Response (ok_response ''reply''),
               JSON_parse := parse_table [(JStr ''reply'', gemini_reply ''{}''), (JStr ''{}'', JObj [])]\<rparr>)
     (JStr ''claim''))
   = Inr \<lparr>verdict = JStr ''Unknown'', confidence = JNull,
          explanation = JStr ''No explanation provided.'', sources = []\<rparr>
   \<and> snd (performFactCheck
     (base_env\<lparr>fetch_gemini_pro := Response (ok_response ''reply''),
               JSON_parse := parse_table [(JStr ''reply'', gemini_reply [])]\<rparr>)
     (JStr ''claim''))
   = Inr \<lparr>verdict = JStr ''Unknown'', confidence = JNull,
          explanation = JStr ''No explanation provided.'', sources = []\<rparr>"
proof -
  let ?e1 = "base_env\<lparr>fetch_gemini_pro := Response (ok_response ''reply''),
               JSON_parse := parse_table [(JStr ''reply'', gemini_reply ''oops'')]\<rparr>"
  let ?e2 = "base_env\<lparr>fetch_gemini_pro := Response (ok_response ''reply''),
               JSON_parse := parse_table [(JStr ''reply'', JObj [])]\<rparr>"
  let ?e3 = "base_env\<lparr>fetch_gemini_pro := Response (ok_response ''reply''),
               JSON_parse := parse_table [(JStr ''reply'', gemini_reply ''null''), (JStr ''null'', JNull)]\<rparr>"
  let ?e4 = "base_env\<lparr>fetch_gemini_pro := Response (ok_response ''reply''),
               JSON_parse := parse_table [(JStr ''reply'', gemini_reply ''{}''), (JStr ''{}'', JObj [])]\<rparr>"
  let ?e5 = "base_env\<lparr>fetch_gemini_pro := Response (ok_response ''reply''),
               JSON_parse := parse_table [(JStr ''reply'', gemini_reply [])]\<rparr>"
  let ?content = "JObj [(''parts'', JArr [JObj [(''text'', JStr [])]])]"
  have k: "truthy (snd (loadAPIKeys ?e1))" "truthy (snd (loadAPIKeys ?e2))"
    "truthy (snd (loadAPIKeys ?e3))" "truthy (snd (loadAPIKeys ?e4))" "truthy (snd (loadAPIKeys ?e5))"
    by (simp_all add: loadAPIKeys_def base_env_def)
  have f: "fetch_gemini_pro ?e1 = Response (ok_response ''reply'')"
    "fetch_gemini_pro ?e2 = Response (ok_response ''reply'')"
    "fetch_gemini_pro ?e3 = Response (ok_response ''reply'')"
    "fetch_gemini_pro ?e4 = Response (ok_response ''reply'')"
    "fetch_gemini_pro ?e5 = Response (ok_response ''reply'')"
    by simp_all
  have o: "ok (ok_response ''reply'')" by (simp add: ok_response_def)
  have j: "response_json ?e1 (ok_response ''reply'') = Inr (gemini_reply ''oops'')"
    "response_json ?e2 (ok_response ''reply'') = Inr (JObj [])"
    "response_json ?e3 (ok_response ''reply'') = Inr (gemini_reply ''null'')"
    "response_json ?e4 (ok_response ''reply'') = Inr (gemini_reply ''{}'')"
    "response_json ?e5 (ok_response ''reply'') = Inr (gemini_reply [])"
    by (simp_all add: response_json_def ok_response_def parse_table_def)
  have t: "gemini_text (gemini_reply x) = Some (JStr x)" for x
    by (simp add: gemini_text_def gemini_content_def gemini_reply_def)
  have c: "gemini_content (gemini_reply []) = Some ?content"
    by (simp add: gemini_content_def gemini_reply_def)
  have n: "\<not> truthy (gemini_text (JObj []))" "\<not> typeof_object (gemini_content (JObj []))"
    by (simp_all add: gemini_text_def gemini_content_def)
  have p1: "JSON_parse ?e1 (JStr ''oops'') = Inl ''Unexpected token''"
    by (simp add: parse_table_def gemini_reply_def)
  have p3: "JSON_parse ?e3 (JStr ''null'') = Inr JNull"
    by (simp add: parse_table_def gemini_reply_def)
  have p4: "JSON_parse ?e4 (JStr ''{}'') = Inr (JObj [])"
    by (simp add: parse_table_def gemini_reply_def)
  note c3 = unparsable_fact_response_is_reported_and_rethrown
  show ?thesis
    using c3 [OF k(1) f(1) o j(1), of "JStr ''oops''" "''Unexpected token''" "JStr ''claim''" JNull]
          c3 [OF k(2) f(2) o j(2), of JNull "[]" "JStr ''claim''" JNull]
          c3 [OF k(3) f(3) o j(3), of "JStr ''null''" "[]" "JStr ''claim''" JNull]
          c3 [OF k(4) f(4) o j(4), of "JStr ''{}''" "[]" "JStr ''claim''" "JObj []"]
          c3 [OF k(5) f(5) o j(5), of "JStr []" "[]" "JStr ''claim''" ?content]
          t c n p1 p3 p4
    by auto
qed

section \<open>Terminal result events\<close>

lemma terminal_status: "terminal (updatePopupStatus m a b) = False"
  by (simp add: updatePopupStatus_def)

lemma terminal_send:
  "terminal (sendDataToPopup a d err) =
     (a = ''displayTranscript'' \<or> a = ''displayCommentAnalysis'' \<or> a = ''displayFactCheck'')"
  by (simp add: sendDataToPopup_def)

lemma terminal_events_simps:
  "terminal_events [] = []"
  "terminal_events (x # xs) = (if terminal x then x # terminal_events xs else terminal_events xs)"
  "terminal_events (xs @ ys) = terminal_events xs @ terminal_events ys"
  by (simp_all add: terminal_events_def)

lemmas terminal_simps = terminal_status terminal_send terminal_events_simps

lemma page_stage_terminal:
  "page_stage e prefs = (effs, r) \<Longrightarrow>
   length (terminal_events effs) = (case r of Inr (Transcript l t) \<Rightarrow> 1 | Inr Fallback \<Rightarrow> 0 | Inl err \<Rightarrow> 0)"
  by (auto simp: page_stage_def Let_def terminal_simps
      split: fetched.splits if_splits option.splits sum.splits prod.splits)

lemma api_terminal:
  "fetchAvailableTranscriptLangsAPI e v = (effs, r) \<Longrightarrow>
   length (terminal_events effs) = (case r of Inl err \<Rightarrow> 0 | Inr res \<Rightarrow> 1)"
  by (auto simp: fetchAvailableTranscriptLangsAPI_def Let_def terminal_simps
      split: if_splits sum.splits)

lemma transcript_terminal:
  "fetchTranscriptFromPage e v prefs = (effs, r) \<Longrightarrow>
   length (terminal_events effs) = (case r of Inl err \<Rightarrow> 0 | Inr res \<Rightarrow> 1)"
proof -
  assume a: "fetchTranscriptFromPage e v prefs = (effs, r)"
  obtain pe pr where p: "page_stage e prefs = (pe, pr)" by (cases "page_stage e prefs")
  obtain ae ar where q: "fetchAvailableTranscriptLangsAPI e v = (ae, ar)"
    by (cases "fetchAvailableTranscriptLangsAPI e v")
  show ?thesis
    using a page_stage_terminal [OF p] api_terminal [OF q] p q
    by (auto simp: fetchTranscriptFromPage_def Let_def terminal_simps
        split: sum.splits page_outcome.splits)
qed

lemma fetch_pages_terminal:
  "fetch_pages fuel e m p cs n = Some (effs, r) \<Longrightarrow> terminal_events effs = []"
proof (induction fuel arbitrary: p cs n effs r)
  case 0
  then show ?case by simp
next
  case (Suc fuel)
  then show ?case
    by (fastforce simp: Let_def terminal_simps
        split: fetched.splits sum.splits if_splits option.splits prod.splits)
qed

lemma analyze_batches_terminal:
  "analyze_batches e i bs st = (effs, r) \<Longrightarrow> terminal_events effs = []"
  by (induction bs arbitrary: i st effs r)
     (auto simp: terminal_simps split: sum.splits prod.splits)

lemma comments_terminal:
  "fetchAndAnalyzeComments fuel e v m = Some (effs, r) \<Longrightarrow>
   length (terminal_events effs) =
     (case r of Inr res \<Rightarrow> 1
      | Inl err \<Rightarrow> if truthy (fst (loadAPIKeys e)) \<and> truthy (snd (loadAPIKeys e)) then 1 else 0)"
proof -
  assume a: "fetchAndAnalyzeComments fuel e v m = Some (effs, r)"
  show ?thesis
  proof (cases "truthy (fst (loadAPIKeys e)) \<and> truthy (snd (loadAPIKeys e))")
    case False
    then show ?thesis using a
      by (auto simp: fetchAndAnalyzeComments_def Let_def terminal_simps split: if_splits)
  next
    case True
    then obtain pe pr where p: "fetch_pages fuel e m 0 [] 0 = Some (pe, pr)"
      using a by (auto simp: fetchAndAnalyzeComments_def Let_def split: option.splits)
    note pt = fetch_pages_terminal [OF p]
    show ?thesis
    proof (cases pr)
      case (Inl err)
      then show ?thesis using a True p pt
        by (auto simp: fetchAndAnalyzeComments_def Let_def comments_catch_def terminal_simps)
    next
      case (Inr cn)
      obtain cs n where cn: "cn = (cs, n)" by (cases cn)
      obtain be br where b: "analyze_batches e 0 (batches cs) ([], zero_counts) = (be, br)"
        by (cases "analyze_batches e 0 (batches cs) ([], zero_counts)")
      note bt = analyze_batches_terminal [OF b]
      show ?thesis using a True p pt Inr cn b bt
        by (auto simp: fetchAndAnalyzeComments_def Let_def comments_catch_def terminal_simps
            split: if_splits sum.splits prod.splits)
    qed
  qed
qed

lemma fact_terminal:
  "performFactCheck e t = (effs, r) \<Longrightarrow>
   length (terminal_events effs) = (if truthy (snd (loadAPIKeys e)) then 1 else 0)"
  by (auto simp: performFactCheck_def Let_def terminal_simps split: if_splits sum.splits)

lemma comments_some:
  "fetch_pages fuel e m 0 [] 0 \<noteq> None \<Longrightarrow> fetchAndAnalyzeComments fuel e v m \<noteq> None"
  by (auto simp: fetchAndAnalyzeComments_def Let_def split: sum.splits prod.splits if_splits)

text \<open>
  C4, as the claim states it, fails: when the comments request is rejected, the analyzer
  sends an error result from its catch and throws, and the listener's catch sends a
  second one ("Ensure error is displayed").
\<close>

theorem failed_comment_fetch_sends_two_results:
  "map_option terminal_events
     (onMessage 1 base_env \<lparr>req_action = ''analyzeComments'', req_tabId = Some (JNum ''7''),
        req_text = None\<rparr>)
   = Some [sendDataToPopup ''displayCommentAnalysis'' None
             (Some ''Comment analysis failed: Failed to fetch''),
           sendDataToPopup ''displayCommentAnalysis'' None (Some ''Error: Failed to fetch'')]"
  by (simp add: onMessage_def getVideoIdFromTab_def base_env_def fetchAndAnalyzeComments_def
      loadAPIKeys_def comments_catch_def terminal_simps)

text \<open>
  C4, amended: a getTranscript operation sends exactly one displayTranscript result; a
  factCheckSelection operation with the generative-language key loaded sends exactly one
  displayFactCheck result; an analyzeComments operation whose pagination ends sends
  exactly one displayCommentAnalysis result when it succeeds, when the video id cannot
  be read or when a key is missing, and exactly two when it fails while fetching or
  analyzing (the analyzer's own error result, then the listener's).
\<close>

theorem terminal_events_of_an_operation:
  "(req_action request = ''getTranscript'' \<and> truthy (req_tabId request) \<longrightarrow>
      (\<exists>effs. onMessage fuel e request = Some effs \<and> length (terminal_events effs) = 1))
   \<and> (req_action request = ''factCheckSelection'' \<and> truthy (req_text request)
        \<and> truthy (snd (loadAPIKeys e)) \<longrightarrow>
      (\<exists>effs. onMessage fuel e request = Some effs \<and> length (terminal_events effs) = 1))
   \<and> (req_action request = ''analyzeComments'' \<and> truthy (req_tabId request)
        \<and> fetch_pages fuel e 50 0 [] 0 \<noteq> None \<longrightarrow>
      onMessage fuel e request \<noteq> None)
   \<and> (req_action request = ''analyzeComments'' \<and> truthy (req_tabId request)
        \<and> onMessage fuel e request = Some effs \<longrightarrow>
      length (terminal_events effs) =
        (case getVideoIdFromTab e of
           Inl err \<Rightarrow> 1
         | Inr videoId \<Rightarrow>
             (case fetchAndAnalyzeComments fuel e videoId 50 of
                Some (effs', Inl err) \<Rightarrow>
                  if truthy (fst (loadAPIKeys e)) \<and> truthy (snd (loadAPIKeys e)) then 2 else 1
              | other \<Rightarrow> 1)))"
proof (intro conjI impI)
  assume a: "req_action request = ''getTranscript'' \<and> truthy (req_tabId request)"
  show "\<exists>effs. onMessage fuel e request = Some effs \<and> length (terminal_events effs) = 1"
  proof (cases "getVideoIdFromTab e")
    case (Inl err)
    then show ?thesis using a by (simp add: onMessage_def terminal_simps)
  next
    case (Inr v)
    obtain te tr where t: "fetchTranscriptFromPage e v [''ta'', ''en''] = (te, tr)"
      by (cases "fetchTranscriptFromPage e v [''ta'', ''en'']")
    show ?thesis using a Inr t transcript_terminal [OF t]
      by (auto simp: onMessage_def terminal_simps split: sum.splits)
  qed
next
  assume a: "req_action request = ''factCheckSelection'' \<and> truthy (req_text request)
        \<and> truthy (snd (loadAPIKeys e))"
  obtain fe fr where f: "performFactCheck e (or_default (req_text request) JNull) = (fe, fr)"
    by (cases "performFactCheck e (or_default (req_text request) JNull)")
  show "\<exists>effs. onMessage fuel e request = Some effs \<and> length (terminal_events effs) = 1"
    using a f fact_terminal [OF f] by (auto simp: onMessage_def terminal_simps split: sum.splits)
next
  assume a: "req_action request = ''analyzeComments'' \<and> truthy (req_tabId request)
        \<and> fetch_pages fuel e 50 0 [] 0 \<noteq> None"
  show "onMessage fuel e request \<noteq> None"
  proof (cases "getVideoIdFromTab e")
    case (Inl err)
    then show ?thesis using a by (simp add: onMessage_def terminal_simps)
  next
    case (Inr v)
    from a comments_some obtain ce cr where c: "fetchAndAnalyzeComments fuel e v 50 = Some (ce, cr)"
      by fastforce
    show ?thesis using a Inr c by (auto simp: onMessage_def terminal_simps split: sum.splits)
  qed
next
  assume a: "req_action request = ''analyzeComments'' \<and> truthy (req_tabId request)
        \<and> onMessage fuel e request = Some effs"
  show "length (terminal_events effs) =
        (case getVideoIdFromTab e of
           Inl err \<Rightarrow> 1
         | Inr videoId \<Rightarrow>
             (case fetchAndAnalyzeComments fuel e videoId 50 of
                Some (effs', Inl err) \<Rightarrow>
                  if truthy (fst (loadAPIKeys e)) \<and> truthy (snd (loadAPIKeys e)) then 2 else 1
              | other \<Rightarrow> 1))"
  proof (cases "getVideoIdFromTab e")
    case (Inl err)
    then show ?thesis using a by (auto simp: onMessage_def terminal_simps)
  next
    case (Inr v)
    from a Inr obtain ce cr where c: "fetchAndAnalyzeComments fuel e v 50 = Some (ce, cr)"
      by (auto simp: onMessage_def split: option.splits)
    show ?thesis using a Inr c comments_terminal [OF c]
      by (auto simp: onMessage_def terminal_simps split: sum.splits)
  qed
qed

theorem terminal_events_witness:
  "map_option (\<lambda>effs. length (terminal_events effs))
     (onMessage 1 base_env \<lparr>req_action = ''getTranscript'', req_tabId = Some (JNum ''7''),
        req_text = None\<rparr>) = Some 1
   \<and> map_option (\<lambda>effs. length (terminal_events effs))
     (onMessage 1 base_env \<lparr>req_action = ''factCheckSelection'', req_tabId = None,
        req_text = Some (JStr ''claim'')\<rparr>) = Some 1
   \<and> map_option (\<lambda>effs. length (terminal_events effs))
     (onMessage 1 base_env \<lparr>req_action = ''analyzeComments'', req_tabId = Some (JNum ''7''),
        req_text = None\<rparr>) = Some 2"
proof -
  let ?t = "\<lparr>req_action = ''getTranscript'', req_tabId = Some (JNum ''7''), req_text = None\<rparr>"
  let ?f = "\<lparr>req_action = ''factCheckSelection'', req_tabId = None,
             req_text = Some (JStr ''claim'')\<rparr>"
  let ?c = "\<lparr>req_action = ''analyzeComments'', req_tabId = Some (JNum ''7''), req_text = None\<rparr>"
  have keys: "truthy (fst (loadAPIKeys base_env)) \<and> truthy (snd (loadAPIKeys base_env))"
    by (simp add: loadAPIKeys_def base_env_def)
  have pages: "fetch_pages 1 base_env 50 0 [] 0 \<noteq> None"
    by (simp add: base_env_def)
  have vid: "getVideoIdFromTab base_env = Inr (JStr ''abc123'')"
    by (simp add: getVideoIdFromTab_def base_env_def)
  have run: "fetchAndAnalyzeComments 1 base_env (JStr ''abc123'') 50 =
     Some (updatePopupStatus (''Fetching comments for video: '' @ js_string (JStr ''abc123'') @ ''...'')
                 False (Some True) #
           [updatePopupStatus (''Fetching comment page (fetched '' @ show_nat 0 @
                    ''/'' @ show_nat 50 @ '')...'') False None,
            Fetch (CommentThreads 0)] @ comments_catch (FetchRejected ''Failed to fetch''),
           Inl (FetchRejected ''Failed to fetch''))"
    using keys by (simp add: fetchAndAnalyzeComments_def base_env_def)
  have a: "\<exists>effs. onMessage 1 base_env ?t = Some effs \<and> length (terminal_events effs) = 1"
    using terminal_events_of_an_operation [where request = ?t and fuel = 1 and e = base_env]
    by simp
  have b: "\<exists>effs. onMessage 1 base_env ?f = Some effs \<and> length (terminal_events effs) = 1"
    using terminal_events_of_an_operation [where request = ?f and fuel = 1 and e = base_env] keys
    by simp
  obtain effs where c0: "onMessage 1 base_env ?c = Some effs"
    using terminal_events_of_an_operation [where request = ?c and fuel = 1 and e = base_env] pages
    by auto
  have c: "length (terminal_events effs) = 2"
    using terminal_events_of_an_operation
      [where request = ?c and fuel = 1 and e = base_env and effs = effs] c0 keys vid run
    by simp
  from a b c0 c show ?thesis by auto
qed

section \<open>Further properties\<close>

lemma count_sentiment_sum:
  "positive (count_sentiment c s) + negative (count_sentiment c s) + neutral (count_sentiment c s)
   = positive c + negative c + neutral c + (if inherited_key s then 0 else 1)"
  by (auto simp: count_sentiment_def counts_defined_def increment_key_def inherited_key_def)

lemma apply_sentiment_ok:
  "apply_sentiment e batch st x = Inr st' \<Longrightarrow> tally_ok st \<Longrightarrow> tally_ok st'"
  by (auto simp: apply_sentiment_def tally_ok_def count_sentiment_sum
      split: if_splits option.splits json.splits)

lemma forEach_ok:
  "tally_ok st \<Longrightarrow> tally_ok (fst (forEach_sentiments e batch st xs))"
  by (induction xs arbitrary: st) (auto split: sum.splits dest: apply_sentiment_ok)

lemma forEach_ok_pair:
  "forEach_sentiments e batch st xs = (st', r) \<Longrightarrow> tally_ok st \<Longrightarrow> tally_ok st'"
  using forEach_ok [of st e batch xs] by simp

lemma label_neutral_ok: "tally_ok st \<Longrightarrow> tally_ok (label_neutral batch st)"
  by (auto simp: label_neutral_def tally_ok_def inherited_key_def)

lemma classify_batch_ok: "tally_ok st \<Longrightarrow> tally_ok (classify_batch e batch st g)"
  by (auto simp: classify_batch_def label_neutral_ok
      split: sum.splits json.splits prod.splits option.splits
      dest: forEach_ok_pair intro: label_neutral_ok)

lemma process_batch_ok: "process_batch e i batch st = Inr st' \<Longrightarrow> tally_ok st \<Longrightarrow> tally_ok st'"
  by (auto simp: process_batch_def classify_batch_ok split: fetched.splits if_splits sum.splits)

lemma analyze_batches_ok:
  "analyze_batches e i bs st = (effs, Inr st') \<Longrightarrow> tally_ok st \<Longrightarrow> tally_ok st'"
  by (induction bs arbitrary: i st effs) (auto split: sum.splits prod.splits dest: process_batch_ok)

text \<open>
  X1: in every result the analyzer returns, totalAnalyzed is the sum of the three
  sentiment counts plus the number of sample entries whose sentiment is
  \<^verbatim>\<open>constructor\<close> or \<^verbatim>\<open>__proto__\<close>; so the total equals the sum of the three
  counts whenever no classified sentiment lower-cases to one of these two.
\<close>

theorem analyzed_total_is_sum_of_counts_and_inherited:
  assumes "fetchAndAnalyzeComments fuel e videoId maxResults = Some (effs, Inr (Some res))"
  shows "totalAnalyzed res =
           positive (sentiment res) + negative (sentiment res) + neutral (sentiment res)
           + length (filter (\<lambda>p. inherited_key (snd p)) (sampleAnalyzedComments res))"
proof -
  have z: "tally_ok ([], zero_counts)" by (simp add: tally_ok_def zero_counts_def)
  from assms obtain cs n be a c where
    b: "analyze_batches e 0 (batches cs) ([], zero_counts) = (be, Inr (a, c))"
    and r: "res = \<lparr>totalFetched = n, totalAnalyzed = length a, sentiment = c,
                   sampleAnalyzedComments = a\<rparr>"
    by (auto simp: fetchAndAnalyzeComments_def Let_def
        split: if_splits option.splits sum.splits prod.splits)
  from analyze_batches_ok [OF b z] r show ?thesis by (simp add: tally_ok_def)
qed

theorem analyzed_total_witness:
  "map_option snd (fetchAndAnalyzeComments 1
     (base_env\<lparr>fetch_comments := \<lambda>page. Response (ok_response ''comments''),
               fetch_gemini_flash := \<lambda>i. Response (ok_response ''reply''),
               JSON_parse := parse_table [(JStr ''comments'', two_comments_page),
                  (JStr ''reply'', gemini_reply ''sentiments''),
                  (JStr ''sentiments'',
                   JArr [JObj [(''id'', JStr ''1''), (''sentiment'', JStr ''positive'')],
                         JObj [(''id'', JStr ''2''), (''sentiment'', JStr ''negative'')]])]\<rparr>)
     (JStr ''abc123'') 50)
   = Some (Inr (Some \<lparr>totalFetched = 2, totalAnalyzed = 2,
        sentiment = \<lparr>positive = 1, negative = 1, neutral = 0\<rparr>,
        sampleAnalyzedComments =
          [(\<lparr>comment_id = Some (JStr ''1''), comment_text = JStr ''great''\<rparr>, ''positive''),
           (\<lparr>comment_id = Some (JStr ''2''), comment_text = JStr ''bad''\<rparr>, ''negative'')]\<rparr>))
   \<and> (2::nat) = 1 + 1 + 0 + length (filter (\<lambda>p. inherited_key (snd p))
          [(\<lparr>comment_id = Some (JStr ''1''), comment_text = JStr ''great''\<rparr>, ''positive''),
           (\<lparr>comment_id = Some (JStr ''2''), comment_text = JStr ''bad''\<rparr>, ''negative'')])"
proof -
  let ?e = "base_env\<lparr>fetch_comments := \<lambda>page. Response (ok_response ''comments''),
               fetch_gemini_flash := \<lambda>i. Response (ok_response ''reply''),
               JSON_parse := parse_table [(JStr ''comments'', two_comments_page),
                  (JStr ''reply'', gemini_reply ''sentiments''),
                  (JStr ''sentiments'',
                   JArr [JObj [(''id'', JStr ''1''), (''sentiment'', JStr ''positive'')],
                         JObj [(''id'', JStr ''2''), (''sentiment'', JStr ''negative'')]])]\<rparr>"
  let ?res = "\<lparr>totalFetched = 2, totalAnalyzed = 2,
        sentiment = \<lparr>positive = 1, negative = 1, neutral = 0\<rparr>,
        sampleAnalyzedComments =
          [(\<lparr>comment_id = Some (JStr ''1''), comment_text = JStr ''great''\<rparr>, ''positive''),
           (\<lparr>comment_id = Some (JStr ''2''), comment_text = JStr ''bad''\<rparr>, ''negative'')]\<rparr>"
  have run: "map_option snd (fetchAndAnalyzeComments 1 ?e (JStr ''abc123'') 50) = Some (Inr (Some ?res))"
    by code_simp
  then obtain effs where
    full: "fetchAndAnalyzeComments 1 ?e (JStr ''abc123'') 50 = Some (effs, Inr (Some ?res))"
    by (cases "fetchAndAnalyzeComments 1 ?e (JStr ''abc123'') 50") auto
  show ?thesis
    using run analyzed_total_is_sum_of_counts_and_inherited [OF full] by simp
qed

lemma find_human_nonempty: "find_human tracks lang = Some t \<Longrightarrow> tracks \<noteq> []"
  by (auto simp: find_human_def)

text \<open>
  X2: when the first-preferred language has a human-authored track with a truthy URL,
  that track is selected, whatever auto-generated tracks the video has.
\<close>

theorem human_track_of_first_preference_is_selected:
  assumes "find_human tracks lang = Some t" and "truthy (baseUrl t)"
  shows "select_track tracks (lang # rest) = (baseUrl t, Some lang)"
  using assms find_human_nonempty [OF assms(1)]
  by (cases tracks) (auto simp: select_track_def)

theorem human_track_of_first_preference_witness:
  "select_track [en_auto, en_human] [''en'']
     = (Some (JStr ''https://example.org/en''), Some ''en'')"
proof -
  have h1: "find_human [en_auto, en_human] ''en'' = Some en_human"
    by (simp add: find_human_def en_auto_def en_human_def)
  have h2: "truthy (baseUrl en_human)" by (simp add: en_human_def)
  show ?thesis
    using human_track_of_first_preference_is_selected [OF h1 h2, of "[]"]
    by (simp add: en_human_def)
qed

end
